theory Spec2Isabelle
  imports Main "HOL-Library.Word"
begin

unbundle bit_operations_syntax

section \<open>Go values used by the manifest asset\<close>

text \<open>
  The asset \<^verbatim>\<open>pkg/asset/agent/manifests/agentclusterinstall.go\<close> works on Go strings
  (byte sequences, here \<^typ>\<open>string\<close>), on \<^verbatim>\<open>net.IP\<close> and \<^verbatim>\<open>net.IPMask\<close> (byte slices, here
  lists of 8-bit words, the nil slice being the empty list) and on Go errors.
\<close>

type_synonym byte = "8 word"
type_synonym IP = "byte list"
type_synonym IPMask = "byte list"

definition IPv4len :: nat where
  "IPv4len = 4"

definition IPv6len :: nat where
  "IPv6len = 16"

text \<open>A Go panic (here always a nil pointer dereference) is the left injection of a sum.\<close>

datatype panic = NilPointerDereference

text \<open>
  Validation errors of \<^verbatim>\<open>k8s.io/apimachinery/pkg/util/validation/field\<close>: an error type, the
  path of the field, the offending value and a detail text. Of the error types only the
  four whose message does not print the offending value are listed; the asset creates
  \<open>ErrorTypeRequired\<close> alone.
\<close>

datatype ErrorType = ErrorTypeRequired | ErrorTypeForbidden | ErrorTypeTooLong | ErrorTypeInternal

record Error =
  Type :: ErrorType
  Field' :: string
  BadValue :: string
  Detail :: string

text \<open>
  Go errors as values: \<^verbatim>\<open>os.ErrNotExist\<close>, a \<^verbatim>\<open>syscall.Errno\<close>, an \<^verbatim>\<open>*fs.PathError\<close>
  (operation, path, cause), \<^verbatim>\<open>errors.New\<close>, a \<^verbatim>\<open>*net.ParseError\<close> (type, text),
  \<^verbatim>\<open>errors.Wrap\<close> of \<^verbatim>\<open>github.com/pkg/errors\<close> (cause, message), and the aggregate that
  \<^verbatim>\<open>field.ErrorList.ToAggregate\<close> builds.
\<close>

datatype error =
    ErrNotExist
  | Errno nat
  | PathError string string error
  | ErrorString string
  | ParseError string string
  | WithMessage error string
  | Aggregate "Error list"

subsection \<open>Package net: parsing of addresses and CIDR strings\<close>

text \<open>
  \<^verbatim>\<open>net.ParseCIDR\<close> belongs to the Go standard library (files \<^verbatim>\<open>ip.go\<close> and \<^verbatim>\<open>parse.go\<close>
  of package \<^verbatim>\<open>net\<close>). Its parsing routines are transcribed function by function: \<^verbatim>\<open>dtoi\<close>,
  \<^verbatim>\<open>xtoi\<close>, \<^verbatim>\<open>parseIPv4\<close>, \<^verbatim>\<open>parseIPv6\<close>, \<^verbatim>\<open>CIDRMask\<close>, \<^verbatim>\<open>IP.Mask\<close>, \<^verbatim>\<open>IP.To4\<close>, \<^verbatim>\<open>IP.To16\<close>.
\<close>

definition big :: int where
  "big = 0xFFFFFF"

definition isDigit :: "char \<Rightarrow> bool" where
  "isDigit c = (48 \<le> (of_char c :: nat) \<and> (of_char c :: nat) \<le> 57)"

definition isLowerHex :: "char \<Rightarrow> bool" where
  "isLowerHex c = (97 \<le> (of_char c :: nat) \<and> (of_char c :: nat) \<le> 102)"

definition isUpperHex :: "char \<Rightarrow> bool" where
  "isUpperHex c = (65 \<le> (of_char c :: nat) \<and> (of_char c :: nat) \<le> 70)"

text \<open>
  The loop of \<^verbatim>\<open>dtoi\<close>: it reads decimal digits, and leaves early (third component
  \<open>False\<close>) once the number reaches \<open>big\<close>. The number is a Go \<^verbatim>\<open>int\<close>, which stays below
  \<open>10 * big\<close> and so never wraps; the second component counts the characters consumed.
\<close>

fun dtoi_loop :: "string \<Rightarrow> int \<Rightarrow> nat \<Rightarrow> int \<times> nat \<times> bool" where
  "dtoi_loop [] n i = (n, i, True)"
| "dtoi_loop (c # s) n i =
     (if isDigit c then
        (let n' = n * 10 + ((of_char c :: int) - 48)
         in if n' \<ge> big then (big, i, False) else dtoi_loop s n' (i + 1))
      else (n, i, True))"

definition dtoi :: "string \<Rightarrow> int \<times> nat \<times> bool" where
  "dtoi s =
     (case dtoi_loop s 0 0 of
        (n, i, ok) \<Rightarrow>
          if \<not> ok then (n, i, False)
          else if i = 0 then (0, 0, False)
          else (n, i, True))"

fun xtoi_loop :: "string \<Rightarrow> int \<Rightarrow> nat \<Rightarrow> int \<times> nat \<times> bool" where
  "xtoi_loop [] n i = (n, i, True)"
| "xtoi_loop (c # s) n i =
     (if isDigit c \<or> isLowerHex c \<or> isUpperHex c then
        (let n' = (if isDigit c then n * 16 + ((of_char c :: int) - 48)
                   else if isLowerHex c then n * 16 + ((of_char c :: int) - 97) + 10
                   else n * 16 + ((of_char c :: int) - 65) + 10)
         in if n' \<ge> big then (0, i, False) else xtoi_loop s n' (i + 1))
      else (n, i, True))"

definition xtoi :: "string \<Rightarrow> int \<times> nat \<times> bool" where
  "xtoi s =
     (case xtoi_loop s 0 0 of
        (n, i, ok) \<Rightarrow>
          if \<not> ok then (n, i, False)
          else if i = 0 then (0, i, False)
          else (n, i, True))"

definition v4InV6Prefix :: "byte list" where
  "v4InV6Prefix = [0, 0, 0, 0, 0, 0, 0, 0, 0, 0, 0xff, 0xff]"

definition IPv4 :: "byte \<Rightarrow> byte \<Rightarrow> byte \<Rightarrow> byte \<Rightarrow> IP" where
  "IPv4 a b c d = v4InV6Prefix @ [a, b, c, d]"

text \<open>
  The loop of \<^verbatim>\<open>parseIPv4\<close> over the four octets; \<open>i\<close> is the octet index and \<open>p\<close> the
  octets read so far. \<open>None\<close> is the nil result.
\<close>

fun parseIPv4_loop :: "nat \<Rightarrow> nat \<Rightarrow> string \<Rightarrow> byte list \<Rightarrow> (string \<times> byte list) option" where
  "parseIPv4_loop 0 i s p = Some (s, p)"
| "parseIPv4_loop (Suc k) i s p =
     (if s = [] then None
      else if i > 0 \<and> hd s \<noteq> CHR ''.'' then None
      else
        (let s1 = (if i > 0 then tl s else s)
         in case dtoi s1 of
              (n, c, ok) \<Rightarrow>
                if \<not> ok \<or> n > 0xFF then None
                else if c > 1 \<and> hd s1 = CHR ''0'' then None
                else parseIPv4_loop k (i + 1) (drop c s1) (p @ [of_int n])))"

definition parseIPv4 :: "string \<Rightarrow> IP" where
  "parseIPv4 s =
     (case parseIPv4_loop IPv4len 0 s [] of
        None \<Rightarrow> []
      | Some (rest, p) \<Rightarrow>
          if rest \<noteq> [] then [] else IPv4 (p ! 0) (p ! 1) (p ! 2) (p ! 3))"

text \<open>
  One pass through the body of the main loop of \<^verbatim>\<open>parseIPv6\<close>. The state is the rest of
  the string, the byte index \<open>i\<close>, the address built so far and the position of the
  ellipsis (\<open>-1\<close> when none was seen).
\<close>

datatype 'a loop_exit = ReturnNil | Break 'a | Continue 'a

type_synonym v6state = "string \<times> nat \<times> IP \<times> int"

definition parseIPv6_body :: "v6state \<Rightarrow> v6state loop_exit" where
  "parseIPv6_body st =
     (case st of (s, i, ip, ellipsis) \<Rightarrow>
        (case xtoi s of
           (n, c, ok) \<Rightarrow>
             if \<not> ok \<or> n > 0xFFFF then ReturnNil
             else if c < length s \<and> s ! c = CHR ''.'' then
               (if ellipsis < 0 \<and> i \<noteq> IPv6len - IPv4len then ReturnNil
                else if i + IPv4len > IPv6len then ReturnNil
                else
                  (let ip4 = parseIPv4 s
                   in if ip4 = [] then ReturnNil
                      else Break ([], i + IPv4len,
                             ip[i := ip4 ! 12, i + 1 := ip4 ! 13, i + 2 := ip4 ! 14, i + 3 := ip4 ! 15],
                             ellipsis)))
             else
               (let ip' = ip[i := of_int (drop_bit 8 n), i + 1 := of_int n];
                    i' = i + 2;
                    s1 = drop c s
                in if s1 = [] then Break (s1, i', ip', ellipsis)
                   else if hd s1 \<noteq> CHR '':'' \<or> length s1 = 1 then ReturnNil
                   else
                     (let s2 = tl s1
                      in if hd s2 = CHR '':'' then
                           (if ellipsis \<ge> 0 then ReturnNil
                            else
                              (let s3 = tl s2
                               in if s3 = [] then Break (s3, i', ip', int i')
                                  else Continue (s3, i', ip', int i')))
                         else Continue (s2, i', ip', ellipsis)))))"

function parseIPv6_loop :: "v6state \<Rightarrow> v6state option" where
  "parseIPv6_loop (s, i, ip, ellipsis) =
     (if i < IPv6len then
        (case parseIPv6_body (s, i, ip, ellipsis) of
           ReturnNil \<Rightarrow> None
         | Break st \<Rightarrow> Some st
         | Continue st \<Rightarrow> parseIPv6_loop st)
      else Some (s, i, ip, ellipsis))"
  by pat_completeness auto
termination
proof (relation "measure (\<lambda>(s, i, ip, e). IPv6len - i)")
  show "wf (measure (\<lambda>(s, i, ip, e). IPv6len - i))" by simp
next
  fix s i ip ellipsis x3
  assume "i < IPv6len" and "parseIPv6_body (s, i, ip, ellipsis) = Continue x3"
  then show "(x3, s, i, ip, ellipsis) \<in> measure (\<lambda>(s, i, ip, e). IPv6len - i)"
    by (cases x3) (auto simp: parseIPv6_body_def Let_def split: prod.splits if_splits)
qed

declare parseIPv6_loop.simps [simp del]

text \<open>
  Expanding the ellipsis: the \<open>i - ellipsis\<close> bytes parsed after it move to the end of
  the address and the gap is filled with zeros.
\<close>

definition expandEllipsis :: "IP \<Rightarrow> nat \<Rightarrow> nat \<Rightarrow> IP" where
  "expandEllipsis ip i ellipsis =
     take ellipsis ip @ replicate (IPv6len - i) 0 @ take (i - ellipsis) (drop ellipsis ip)"

definition parseIPv6 :: "string \<Rightarrow> IP" where
  "parseIPv6 s =
     (let ip0 = replicate IPv6len (0 :: byte);
          lead = (length s \<ge> 2 \<and> s ! 0 = CHR '':'' \<and> s ! 1 = CHR '':'');
          ellipsis0 = (if lead then 0 else - 1 :: int);
          s0 = (if lead then drop 2 s else s)
      in if lead \<and> s0 = [] then ip0
         else
           (case parseIPv6_loop (s0, 0, ip0, ellipsis0) of
              None \<Rightarrow> []
            | Some (s1, i, ip, ellipsis) \<Rightarrow>
                if s1 \<noteq> [] then []
                else if i < IPv6len then
                  (if ellipsis < 0 then [] else expandEllipsis ip i (nat ellipsis))
                else if ellipsis \<ge> 0 then []
                else ip))"

fun CIDRMask_loop :: "nat \<Rightarrow> nat \<Rightarrow> IPMask" where
  "CIDRMask_loop 0 n = []"
| "CIDRMask_loop (Suc l) n =
     (if n \<ge> 8 then 0xff # CIDRMask_loop l (n - 8)
      else NOT (drop_bit n (0xff :: byte)) # CIDRMask_loop l 0)"

definition CIDRMask :: "nat \<Rightarrow> nat \<Rightarrow> IPMask" where
  "CIDRMask ones bits =
     (if bits \<noteq> 8 * IPv4len \<and> bits \<noteq> 8 * IPv6len then []
      else if ones > bits then []
      else CIDRMask_loop (bits div 8) ones)"

definition allFF :: "byte list \<Rightarrow> bool" where
  "allFF b = list_all (\<lambda>c. c = 0xff) b"

definition IP_Mask :: "IP \<Rightarrow> IPMask \<Rightarrow> IP" where
  "IP_Mask ip msk =
     (let mask1 = (if length msk = IPv6len \<and> length ip = IPv4len \<and> allFF (take 12 msk)
                   then drop 12 msk else msk);
          ip1 = (if length mask1 = IPv4len \<and> length ip = IPv6len \<and> take 12 ip = v4InV6Prefix
                 then drop 12 ip else ip)
      in if length ip1 \<noteq> length mask1 then []
         else map (\<lambda>(a, m). a AND m) (zip ip1 mask1))"

definition isZeros :: "byte list \<Rightarrow> bool" where
  "isZeros p = list_all (\<lambda>c. c = 0) p"

definition To4 :: "IP \<Rightarrow> IP" where
  "To4 ip =
     (if length ip = IPv4len then ip
      else if length ip = IPv6len \<and> isZeros (take 10 ip) \<and> ip ! 10 = 0xff \<and> ip ! 11 = 0xff
      then take 4 (drop 12 ip)
      else [])"

definition To16 :: "IP \<Rightarrow> IP" where
  "To16 ip =
     (if length ip = IPv4len then IPv4 (ip ! 0) (ip ! 1) (ip ! 2) (ip ! 3)
      else if length ip = IPv6len then ip
      else [])"

record IPNet =
  IP :: IP
  Mask :: IPMask

text \<open>
  \<^verbatim>\<open>net.ParseCIDR\<close>: the address before the slash is tried as IPv4, then as IPv6; the prefix
  length after the slash must be a decimal number within the address size. It returns
  the address and the network (the address masked, and the mask).
\<close>

fun IndexByte :: "string \<Rightarrow> char \<Rightarrow> nat option" where
  "IndexByte [] c = None"
| "IndexByte (x # xs) c = (if x = c then Some 0 else map_option Suc (IndexByte xs c))"

definition net_ParseCIDR :: "string \<Rightarrow> error + (IP \<times> IPNet)" where
  "net_ParseCIDR s =
     (case IndexByte s (CHR ''/'') of
        None \<Rightarrow> Inl (ParseError ''CIDR address'' s)
      | Some i \<Rightarrow>
          (let addr = take i s;
               msk = drop (i + 1) s;
               ip4 = parseIPv4 addr;
               iplen = (if ip4 = [] then IPv6len else IPv4len);
               ip = (if ip4 = [] then parseIPv6 addr else ip4)
           in case dtoi msk of
                (n, j, ok) \<Rightarrow>
                  if ip = [] \<or> \<not> ok \<or> j \<noteq> length msk \<or> n < 0 \<or> n > int (8 * iplen)
                  then Inl (ParseError ''CIDR address'' s)
                  else
                    (let m = CIDRMask (nat n) (8 * iplen)
                     in Inr (ip, \<lparr>IP = IP_Mask ip m, Mask = m\<rparr>))))"

subsection \<open>Package net: printing of addresses and networks\<close>

text \<open>
  \<^verbatim>\<open>IPNet.String\<close> and what it calls: \<^verbatim>\<open>uitoa\<close>, \<^verbatim>\<open>appendHex\<close>, \<^verbatim>\<open>hexString\<close>, \<^verbatim>\<open>IP.String\<close>,
  \<^verbatim>\<open>IPMask.String\<close>, \<^verbatim>\<open>simpleMaskLength\<close>, \<^verbatim>\<open>networkNumberAndMask\<close>.
\<close>

fun uitoa :: "nat \<Rightarrow> string" where
  "uitoa n = (if n < 10 then [char_of (48 + n)] else uitoa (n div 10) @ [char_of (48 + n mod 10)])"

declare uitoa.simps [simp del]

definition hexDigit :: string where
  "hexDigit = ''0123456789abcdef''"

text \<open>The loop of \<^verbatim>\<open>appendHex\<close> runs \<open>j\<close> from 7 down to 0; here \<open>Suc j\<close> counts down from 8.\<close>

fun appendHex_loop :: "nat \<Rightarrow> string \<Rightarrow> int \<Rightarrow> string" where
  "appendHex_loop 0 dst i = dst"
| "appendHex_loop (Suc j) dst i =
     (let v = drop_bit (j * 4) i
      in appendHex_loop j (if v > 0 then dst @ [hexDigit ! nat (v mod 16)] else dst) i)"

definition appendHex :: "string \<Rightarrow> int \<Rightarrow> string" where
  "appendHex dst i = (if i = 0 then dst @ ''0'' else appendHex_loop 8 dst i)"

definition hexString :: "byte list \<Rightarrow> string" where
  "hexString b = concat (map (\<lambda>tn. [hexDigit ! (unat tn div 16), hexDigit ! (unat tn mod 16)]) b)"

text \<open>
  The search for the longest run of zero groups in \<^verbatim>\<open>IP.String\<close>: \<open>zeroRunEnd\<close> is the
  inner loop, \<open>longestZeroRun\<close> the outer one, which jumps past a run it has recorded.
\<close>

function zeroRunEnd :: "IP \<Rightarrow> nat \<Rightarrow> nat" where
  "zeroRunEnd p j =
     (if j < IPv6len \<and> p ! j = 0 \<and> p ! (j + 1) = 0 then zeroRunEnd p (j + 2) else j)"
  by pat_completeness auto
termination
  by (relation "measure (\<lambda>(p, j). IPv6len - j)") auto

declare zeroRunEnd.simps [simp del]

function longestZeroRun :: "IP \<Rightarrow> nat \<Rightarrow> int \<Rightarrow> int \<Rightarrow> int \<times> int" where
  "longestZeroRun p i e0 e1 =
     (if i < IPv6len then
        (let j = zeroRunEnd p i
         in if j > i \<and> int j - int i > e1 - e0 then longestZeroRun p (j + 2) (int i) (int j)
            else longestZeroRun p (i + 2) e0 e1)
      else (e0, e1))"
  by pat_completeness auto
termination
  by (relation "measure (\<lambda>(p, i, e0, e1). IPv6len - i)") auto

declare longestZeroRun.simps [simp del]

text \<open>
  The printing loop of \<^verbatim>\<open>IP.String\<close>. At \<open>i = e0\<close> it writes the double colon and
  continues at \<open>e1\<close>; as \<open>e0 < e1\<close> whenever \<open>e0\<close> is not \<open>-1\<close>, the index never meets
  \<open>e0\<close> again, so the rest is printed by the same loop without an ellipsis.
\<close>

function printGroups :: "IP \<Rightarrow> int \<Rightarrow> int \<Rightarrow> nat \<Rightarrow> string \<Rightarrow> string" where
  "printGroups p e0 e1 i b =
     (if i < IPv6len then
        (if int i = e0 then
           (let b1 = b @ ''::''; i1 = nat e1
            in if i1 \<ge> IPv6len then b1
               else printGroups p (- 1) (- 1) (i1 + 2)
                      (appendHex b1 (push_bit 8 (uint (p ! i1)) OR uint (p ! (i1 + 1)))))
         else
           (let b1 = (if i > 0 then b @ '':'' else b)
            in printGroups p e0 e1 (i + 2)
                 (appendHex b1 (push_bit 8 (uint (p ! i)) OR uint (p ! (i + 1))))))
      else b)"
  by pat_completeness auto
termination
proof (relation "measures [\<lambda>(p, e0, e1, i, b). if e0 \<ge> 0 then 1 else 0,
                          \<lambda>(p, e0, e1, i, b). IPv6len - i]", goal_cases)
  case 1
  show ?case by simp
next
  case (2 p e0 e1 i b b1 i1)
  then show ?case by simp
next
  case (3 p e0 e1 i b b1)
  then show ?case by simp
qed

declare printGroups.simps [simp del]

definition IP_String :: "IP \<Rightarrow> string" where
  "IP_String ip =
     (if length ip = 0 then ''<nil>''
      else
        (let p4 = To4 ip
         in if length p4 = IPv4len then
              uitoa (unat (p4 ! 0)) @ ''.'' @ uitoa (unat (p4 ! 1)) @ ''.'' @
              uitoa (unat (p4 ! 2)) @ ''.'' @ uitoa (unat (p4 ! 3))
            else if length ip \<noteq> IPv6len then ''?'' @ hexString ip
            else
              (case longestZeroRun ip 0 (- 1) (- 1) of
                 (e0, e1) \<Rightarrow>
                   if e1 - e0 \<le> 2 then printGroups ip (- 1) (- 1) 0 []
                   else printGroups ip e0 e1 0 [])))"

definition IPMask_String :: "IPMask \<Rightarrow> string" where
  "IPMask_String m = (if length m = 0 then ''<nil>'' else hexString m)"

text \<open>
  \<^verbatim>\<open>simpleMaskLength\<close>: the number of leading one bits of a mask of the form 1...10...0,
  and \<open>None\<close> (the result \<open>-1\<close>) for any other mask. \<open>leadingOnes\<close> is its inner loop, which
  shifts a byte other than \<open>0xff\<close> left while the top bit is set: at most seven times.
\<close>

fun leadingOnes :: "nat \<Rightarrow> byte \<Rightarrow> nat \<times> byte" where
  "leadingOnes 0 v = (0, v)"
| "leadingOnes (Suc k) v =
     (if v AND 0x80 \<noteq> 0 then (case leadingOnes k (push_bit 1 v) of (n, w) \<Rightarrow> (n + 1, w))
      else (0, v))"

fun simpleMaskLength :: "IPMask \<Rightarrow> nat option" where
  "simpleMaskLength [] = Some 0"
| "simpleMaskLength (v # rest) =
     (if v = 0xff then map_option (\<lambda>n. n + 8) (simpleMaskLength rest)
      else
        (case leadingOnes 8 v of
           (n, w) \<Rightarrow> if w \<noteq> 0 then None
                     else if list_ex (\<lambda>b. b \<noteq> 0) rest then None
                     else Some n))"

definition networkNumberAndMask :: "IPNet \<Rightarrow> (IP \<times> IPMask) option" where
  "networkNumberAndMask n =
     (let ip4 = To4 (IP n);
          ip = (if ip4 = [] then IP n else ip4)
      in if ip4 = [] \<and> length ip \<noteq> IPv6len then None
         else if length (Mask n) = IPv4len then
           (if length ip \<noteq> IPv4len then None else Some (ip, Mask n))
         else if length (Mask n) = IPv6len then
           (if length ip = IPv4len then Some (ip, drop 12 (Mask n)) else Some (ip, Mask n))
         else None)"

definition IPNet_String :: "IPNet \<Rightarrow> string" where
  "IPNet_String n =
     (case networkNumberAndMask n of
        None \<Rightarrow> ''<nil>''
      | Some (nn, m) \<Rightarrow>
          (case simpleMaskLength m of
             None \<Rightarrow> IP_String nn @ ''/'' @ IPMask_String m
           | Some l \<Rightarrow> IP_String nn @ ''/'' @ uitoa l))"

subsection \<open>Packages strings, os and field\<close>

text \<open>
  \<^verbatim>\<open>strings.Trim\<close> with a cut set of ASCII characters removes bytes of the cut set from
  the right end, then from the left end.
\<close>

definition trimRightASCII :: "string \<Rightarrow> string \<Rightarrow> string" where
  "trimRightASCII s cutset = rev (dropWhile (\<lambda>c. c \<in> set cutset) (rev s))"

definition trimLeftASCII :: "string \<Rightarrow> string \<Rightarrow> string" where
  "trimLeftASCII s cutset = dropWhile (\<lambda>c. c \<in> set cutset) s"

definition strings_Trim :: "string \<Rightarrow> string \<Rightarrow> string" where
  "strings_Trim s cutset =
     (if s = [] \<or> cutset = [] then s else trimLeftASCII (trimRightASCII s cutset) cutset)"

text \<open>
  \<^verbatim>\<open>os.IsNotExist\<close> looks through one \<^verbatim>\<open>PathError\<close> (which stands here for the three
  wrappers of package \<^verbatim>\<open>os\<close>) and accepts \<^verbatim>\<open>ErrNotExist\<close> and the system error \<^verbatim>\<open>ENOENT\<close>; it
  does not look through \<^verbatim>\<open>errors.Wrap\<close>.
\<close>

definition ENOENT :: nat where
  "ENOENT = 2"

fun underlyingError :: "error \<Rightarrow> error" where
  "underlyingError (PathError opn path e) = e"
| "underlyingError e = e"

definition os_IsNotExist :: "error \<Rightarrow> bool" where
  "os_IsNotExist err =
     (let e = underlyingError err
      in e = ErrNotExist \<or> (case e of Errno n \<Rightarrow> n = ENOENT | _ \<Rightarrow> False))"

definition NewPath :: "string \<Rightarrow> string list \<Rightarrow> string list" where
  "NewPath name moreNames = name # moreNames"

fun Path_String :: "string list \<Rightarrow> string" where
  "Path_String [] = []"
| "Path_String [n] = n"
| "Path_String (n # ns) = n @ ''.'' @ Path_String ns"

definition Required :: "string list \<Rightarrow> string \<Rightarrow> Error" where
  "Required field detail =
     \<lparr>Type = ErrorTypeRequired, Field' = Path_String field, BadValue = [], Detail = detail\<rparr>"

fun ErrorType_String :: "ErrorType \<Rightarrow> string" where
  "ErrorType_String ErrorTypeRequired = ''Required value''"
| "ErrorType_String ErrorTypeForbidden = ''Forbidden''"
| "ErrorType_String ErrorTypeTooLong = ''Too long''"
| "ErrorType_String ErrorTypeInternal = ''Internal error''"

definition Error_Error :: "Error \<Rightarrow> string" where
  "Error_Error v =
     Field' v @ '': '' @ ErrorType_String (Type v) @
     (if length (Detail v) \<noteq> 0 then '': '' @ Detail v else [])"

text \<open>
  \<^verbatim>\<open>ErrorList.ToAggregate\<close>: nil for the empty list; otherwise the aggregate of the
  errors, an error whose message was already seen being dropped.
\<close>

fun distinctMessages :: "Error list \<Rightarrow> string list \<Rightarrow> Error list" where
  "distinctMessages [] seen = []"
| "distinctMessages (e # es) seen =
     (if Error_Error e \<in> set seen then distinctMessages es seen
      else e # distinctMessages es (Error_Error e # seen))"

definition ToAggregate :: "Error list \<Rightarrow> error option" where
  "ToAggregate list =
     (if length list = 0 then None
      else (let errs = distinctMessages list []
            in if errs = [] then None else Some (Aggregate errs)))"

section \<open>The data model\<close>

text \<open>
  The install configuration of \<^verbatim>\<open>pkg/types\<close> (fields prefixed \<open>types_\<close> where the descriptor
  has a field of the same name) and the descriptor of the \<^verbatim>\<open>hiveextension\<close> API, each with
  the fields the asset reads or writes. A Go \<^verbatim>\<open>int\<close> is a 64-bit word, a pointer is an
  option. The platform section of the install configuration is a type parameter: the
  asset hands it to \<^verbatim>\<open>getVIPs\<close> and does nothing else with it.
\<close>

type_synonym int32 = "32 word"
type_synonym int64 = "64 word"
type_synonym GoInt = "64 word"

record ObjectMeta =
  Name :: string
  Namespace :: string

record MachinePool =
  PoolName :: string
  Replicas :: "int64 option"

record types_ClusterNetworkEntry =
  types_CIDR :: IPNet
  types_HostPrefix :: int32

record types_Networking =
  types_NetworkType :: string
  types_ClusterNetwork :: "types_ClusterNetworkEntry list"
  types_ServiceNetwork :: "IPNet list"

record 'p InstallConfig =
  types_ObjectMeta :: ObjectMeta
  SSHKey :: string
  ControlPlane :: "MachinePool option"
  Compute :: "MachinePool list"
  types_Networking :: "types_Networking option"
  Platform :: 'p

record ClusterNetworkEntry =
  CIDR :: string
  HostPrefix :: int32

record Networking =
  ClusterNetwork :: "ClusterNetworkEntry list"
  ServiceNetwork :: "string list"
  NetworkType :: string

record ProvisionRequirements =
  ControlPlaneAgents :: GoInt
  WorkerAgents :: GoInt

record AgentClusterInstallSpec =
  ImageSetRef :: "string option"
  ClusterDeploymentRef :: string
  Networking :: Networking
  SSHPublicKey :: string
  ProvisionRequirements :: ProvisionRequirements
  APIVIP :: string
  IngressVIP :: string

record hiveext_AgentClusterInstall =
  ObjectMeta :: ObjectMeta
  Spec :: AgentClusterInstallSpec

record File =
  Filename :: string
  Data :: string

text \<open>The asset itself: the manifest file and the descriptor, both nil until set.\<close>

record AgentClusterInstall =
  File :: "File option"
  Config :: "hiveext_AgentClusterInstall option"

text \<open>
  What the asset uses but its source file does not define: the file name (computed from
  the manifest directory of the package), the naming helpers, the accessor of the
  platform's virtual addresses, and the YAML library.
\<close>

record 'p collaborators =
  agentClusterInstallFilename :: string
  getAgentClusterInstallName :: "'p InstallConfig \<Rightarrow> string"
  getObjectMetaNamespace :: "'p InstallConfig \<Rightarrow> string"
  getClusterImageSetReferenceName :: string
  getClusterDeploymentName :: "'p InstallConfig \<Rightarrow> string"
  getVIPs :: "'p \<Rightarrow> string \<times> string"
  yaml_Marshal :: "hiveext_AgentClusterInstall \<Rightarrow> error + string"
  yaml_UnmarshalStrict :: "string \<Rightarrow> error + hiveext_AgentClusterInstall"

text \<open>
  Modelled from the spec: the constant \<^verbatim>\<open>operv1.NetworkTypeOpenShiftSDN\<close> of the vendored
  package \<^verbatim>\<open>github.com/openshift/api/operator/v1\<close>, the identifier of the legacy plugin
  that does not support IPv6.
\<close>

definition NetworkTypeOpenShiftSDN :: string where
  "NetworkTypeOpenShiftSDN = ''OpenShiftSDN''"

text \<open>
  Modelled from the spec: the default network type that \<^verbatim>\<open>defaults.SetInstallConfigDefaults\<close>
  (package \<^verbatim>\<open>pkg/types/defaults\<close>) fills in. The comment above \<^verbatim>\<open>setNetworkType\<close> names it:
  OVNKubernetes.
\<close>

definition defaultNetworkType :: string where
  "defaultNetworkType = ''OVNKubernetes''"

text \<open>
  Modelled from the spec: \<^verbatim>\<open>defaults.SetInstallConfigDefaults\<close> (package
  \<^verbatim>\<open>pkg/types/defaults\<close>), the default policy that "mutates a (possibly blank) install
  configuration in place to populate its network type". A nil configuration is
  dereferenced, which panics.
\<close>

definition SetInstallConfigDefaults :: "'p InstallConfig option \<Rightarrow> panic + 'p InstallConfig" where
  "SetInstallConfigDefaults c =
     (case c of
        None \<Rightarrow> Inl NilPointerDereference
      | Some ic \<Rightarrow>
          (let n = (case types_Networking ic of
                      None \<Rightarrow> \<lparr>types_NetworkType = [], types_ClusterNetwork = [],
                                 types_ServiceNetwork = []\<rparr>
                    | Some n \<Rightarrow> n);
               n' = (if types_NetworkType n = [] then n\<lparr>types_NetworkType := defaultNetworkType\<rparr>
                     else n)
           in Inr (ic\<lparr>types_Networking := Some n'\<rparr>)))"

text \<open>
  Modelled from the spec: \<^verbatim>\<open>validate.SubnetCIDR\<close> (package \<^verbatim>\<open>pkg/validate\<close>), which "rejects a
  CIDR whose host bits are non-zero".
\<close>

definition validate_SubnetCIDR :: "IPNet \<Rightarrow> error option" where
  "validate_SubnetCIDR cidr =
     (if IP_String (IP_Mask (IP cidr) (Mask cidr)) \<noteq> IP_String (IP cidr)
      then Some (ErrorString ''invalid network address'')
      else None)"

text \<open>
  Modelled from the spec: \<^verbatim>\<open>ipnet.ParseCIDR\<close> and \<^verbatim>\<open>ipnet.IPNet.String\<close> (package
  \<^verbatim>\<open>pkg/ipnet\<close>, a wrapper of \<^verbatim>\<open>net.IPNet\<close> "to parse and normalize the CIDR
  representation"): the parsed address with the parsed mask, printed by \<^verbatim>\<open>net.IPNet.String\<close>.
\<close>

definition ipnet_ParseCIDR :: "string \<Rightarrow> error + IPNet" where
  "ipnet_ParseCIDR s =
     (case net_ParseCIDR s of
        Inl err \<Rightarrow> Inl err
      | Inr (ip, cidr) \<Rightarrow> Inr \<lparr>IP = ip, Mask = Mask cidr\<rparr>)"

definition ipnet_String :: "IPNet \<Rightarrow> string" where
  "ipnet_String n = IPNet_String n"

section \<open>The asset: agentclusterinstall.go\<close>

subsection \<open>setNetworkType\<close>

definition withNetworkType :: "hiveext_AgentClusterInstall \<Rightarrow> string \<Rightarrow> hiveext_AgentClusterInstall" where
  "withNetworkType aci t =
     aci\<lparr>Spec := (Spec aci)\<lparr>Networking := (Networking (Spec aci))\<lparr>NetworkType := t\<rparr>\<rparr>\<rparr>"

text \<open>
  The function mutates the descriptor and, through the default policy, the install
  configuration, and it logs one line when it defaults. The model returns the three:
  the descriptor, the configuration and the lines logged.
\<close>

definition setNetworkType ::
  "hiveext_AgentClusterInstall \<Rightarrow> 'p InstallConfig option \<Rightarrow> string \<Rightarrow>
   panic + (hiveext_AgentClusterInstall \<times> 'p InstallConfig option \<times> string list)" where
  "setNetworkType aci installConfig warningMessage =
     (if NetworkType (Networking (Spec aci)) \<noteq> [] then Inr (aci, installConfig, [])
      else
        (let specified =
               (case installConfig of
                  None \<Rightarrow> None
                | Some ic \<Rightarrow>
                    (case types_Networking ic of
                       None \<Rightarrow> None
                     | Some n \<Rightarrow> if types_NetworkType n \<noteq> [] then Some (types_NetworkType n)
                                else None))
         in case specified of
              Some t \<Rightarrow> Inr (withNetworkType aci t, installConfig, [])
            | None \<Rightarrow>
                (case SetInstallConfigDefaults installConfig of
                   Inl p \<Rightarrow> Inl p
                 | Inr ic' \<Rightarrow>
                     (case types_Networking ic' of
                        None \<Rightarrow> Inl NilPointerDereference
                      | Some n \<Rightarrow>
                          Inr (withNetworkType aci (types_NetworkType n), Some ic',
                               [warningMessage @ '' Defaulting NetworkType to '' @
                                types_NetworkType n @ ''.''])))))"

subsection \<open>validateIPAddressAndNetworkType\<close>

definition isIPv6 :: "IP \<Rightarrow> bool" where
  "isIPv6 ipAddress = (let ip = To16 ipAddress in ip \<noteq> [])"

definition fieldPath :: "string list" where
  "fieldPath = NewPath ''spec'' [''networking'', ''networkType'']"

definition clusterNetworkPath :: "string list" where
  "clusterNetworkPath = NewPath ''spec'' [''networking'', ''clusterNetwork'']"

definition serviceNetworkPath :: "string list" where
  "serviceNetworkPath = NewPath ''spec'' [''networking'', ''serviceNetwork'']"

text \<open>
  The two loops of the validator. Each carries the error list and the flag \<open>hasIPv6\<close>;
  the address of an entry that does not parse is nil.
\<close>

fun clusterNetworkLoop :: "ClusterNetworkEntry list \<Rightarrow> Error list \<Rightarrow> bool \<Rightarrow> Error list \<times> bool" where
  "clusterNetworkLoop [] allErrs hasIPv6 = (allErrs, hasIPv6)"
| "clusterNetworkLoop (cn # cns) allErrs hasIPv6 =
     (let (ip, errCIDR) = (case net_ParseCIDR (CIDR cn) of
                             Inl err \<Rightarrow> ([], Some err)
                           | Inr (ip, ipnet) \<Rightarrow> (ip, None));
          allErrs' = (if errCIDR \<noteq> None
                      then allErrs @ [Required clusterNetworkPath ''error parsing the clusterNetwork CIDR'']
                      else allErrs);
          hasIPv6' = (if isIPv6 ip then True else hasIPv6)
      in clusterNetworkLoop cns allErrs' hasIPv6')"

fun serviceNetworkLoop :: "string list \<Rightarrow> Error list \<Rightarrow> bool \<Rightarrow> Error list \<times> bool" where
  "serviceNetworkLoop [] allErrs hasIPv6 = (allErrs, hasIPv6)"
| "serviceNetworkLoop (cidr # cidrs) allErrs hasIPv6 =
     (let (ip, errCIDR) = (case net_ParseCIDR cidr of
                             Inl err \<Rightarrow> ([], Some err)
                           | Inr (ip, ipnet) \<Rightarrow> (ip, None));
          allErrs' = (if errCIDR \<noteq> None
                      then allErrs @ [Required serviceNetworkPath ''error parsing the clusterNetwork CIDR'']
                      else allErrs);
          hasIPv6' = (if isIPv6 ip then True else hasIPv6)
      in serviceNetworkLoop cidrs allErrs' hasIPv6')"

definition validateIPAddressAndNetworkType :: "AgentClusterInstall \<Rightarrow> panic + Error list" where
  "validateIPAddressAndNetworkType a =
     (case Config a of
        None \<Rightarrow> Inl NilPointerDereference
      | Some config \<Rightarrow>
          (let allErrs = [];
               networking = Networking (Spec config)
           in if NetworkType networking = NetworkTypeOpenShiftSDN then
                (let (allErrs1, hasIPv6) = clusterNetworkLoop (ClusterNetwork networking) allErrs False;
                     allErrs2 =
                       (if hasIPv6
                        then allErrs1 @
                          [Required fieldPath
                             (''clusterNetwork CIDR is IPv6 and is not compatible with networkType '' @
                              NetworkTypeOpenShiftSDN)]
                        else allErrs1);
                     (allErrs3, hasIPv6') = serviceNetworkLoop (ServiceNetwork networking) allErrs2 False;
                     allErrs4 =
                       (if hasIPv6'
                        then allErrs3 @
                          [Required fieldPath
                             (''serviceNetwork CIDR is IPv6 and is not compatible with networkType '' @
                              NetworkTypeOpenShiftSDN)]
                        else allErrs3)
                 in Inr allErrs4)
              else Inr allErrs))"

subsection \<open>finish\<close>

definition finish :: "AgentClusterInstall \<Rightarrow> panic + error option" where
  "finish a =
     (if Config a = None then Inr (Some (ErrorString ''missing configuration or manifest file''))
      else
        (case validateIPAddressAndNetworkType a of
           Inl p \<Rightarrow> Inl p
         | Inr allErrs \<Rightarrow>
             (case ToAggregate allErrs of
                Some err \<Rightarrow> Inr (Some (WithMessage err ''invalid NetworkType configured''))
              | None \<Rightarrow> Inr None)))"

subsection \<open>Load\<close>

text \<open>
  The file fetcher is its method \<^verbatim>\<open>FetchByName\<close>, a function from names to a file or an
  error. The blank install configuration \<^verbatim>\<open>&types.InstallConfig{}\<close> has every field at
  its zero value; its platform section, which \<^verbatim>\<open>setNetworkType\<close> never reads, is the unit
  value. The result is the asset as \<^verbatim>\<open>Load\<close> leaves it, and the two values returned.
\<close>

definition blankInstallConfig :: "unit InstallConfig" where
  "blankInstallConfig =
     \<lparr>types_ObjectMeta = \<lparr>Name = [], Namespace = []\<rparr>, SSHKey = [], ControlPlane = None,
      Compute = [], types_Networking = None, Platform = ()\<rparr>"

definition Load ::
  "'p collaborators \<Rightarrow> AgentClusterInstall \<Rightarrow> (string \<Rightarrow> error + File) \<Rightarrow>
   panic + (AgentClusterInstall \<times> bool \<times> error option)" where
  "Load env a FetchByName =
     (case FetchByName (agentClusterInstallFilename env) of
        Inl err \<Rightarrow>
          if os_IsNotExist err then Inr (a, False, None)
          else Inr (a, False,
                 Some (WithMessage err
                         (''failed to load '' @ agentClusterInstallFilename env @ '' file'')))
      | Inr agentClusterInstallFile \<Rightarrow>
          (let a1 = a\<lparr>File := Some agentClusterInstallFile\<rparr>
           in case yaml_UnmarshalStrict env (Data agentClusterInstallFile) of
                Inl err \<Rightarrow>
                  Inr (a1, False,
                    Some (WithMessage err
                            (''failed to unmarshal '' @ agentClusterInstallFilename env)))
              | Inr agentClusterInstall \<Rightarrow>
                  (case setNetworkType agentClusterInstall (Some blankInstallConfig)
                          ''NetworkType is not specified in AgentClusterInstall.'' of
                     Inl p \<Rightarrow> Inl p
                   | Inr (agentClusterInstall', ic, logged) \<Rightarrow>
                       (let a2 = a1\<lparr>Config := Some agentClusterInstall'\<rparr>
                        in case finish a2 of
                             Inl p \<Rightarrow> Inl p
                           | Inr (Some err) \<Rightarrow> Inr (a2, False, Some err)
                           | Inr None \<Rightarrow> Inr (a2, True, None)))))"

subsection \<open>Generate\<close>

text \<open>The three loops of \<^verbatim>\<open>Generate\<close>; the two over networks stop at the first error.\<close>

fun sumReplicas :: "MachinePool list \<Rightarrow> GoInt \<Rightarrow> panic + GoInt" where
  "sumReplicas [] numberOfWorkers = Inr numberOfWorkers"
| "sumReplicas (compute # rest) numberOfWorkers =
     (case Replicas compute of
        None \<Rightarrow> Inl NilPointerDereference
      | Some r \<Rightarrow> sumReplicas rest (numberOfWorkers + r))"

fun buildClusterNetwork ::
  "types_ClusterNetworkEntry list \<Rightarrow> ClusterNetworkEntry list \<Rightarrow> error + ClusterNetworkEntry list" where
  "buildClusterNetwork [] clusterNetwork = Inr clusterNetwork"
| "buildClusterNetwork (cn # rest) clusterNetwork =
     (case net_ParseCIDR (ipnet_String (types_CIDR cn)) of
        Inl err \<Rightarrow> Inl (WithMessage err ''failed to parse ClusterNetwork CIDR'')
      | Inr (ip, cidr) \<Rightarrow>
          (case validate_SubnetCIDR cidr of
             Some err \<Rightarrow> Inl (WithMessage err ''failed to validate ClusterNetwork CIDR'')
           | None \<Rightarrow>
               buildClusterNetwork rest
                 (clusterNetwork @ [\<lparr>CIDR = IPNet_String cidr, HostPrefix = types_HostPrefix cn\<rparr>])))"

fun buildServiceNetwork :: "IPNet list \<Rightarrow> string list \<Rightarrow> error + string list" where
  "buildServiceNetwork [] serviceNetwork = Inr serviceNetwork"
| "buildServiceNetwork (sn # rest) serviceNetwork =
     (case ipnet_ParseCIDR (ipnet_String sn) of
        Inl err \<Rightarrow> Inl (WithMessage err ''failed to parse ServiceNetwork CIDR'')
      | Inr cidr \<Rightarrow> buildServiceNetwork rest (serviceNetwork @ [ipnet_String cidr]))"

text \<open>
  \<^verbatim>\<open>int(*installConfig.Config.ControlPlane.Replicas)\<close>: two pointers are followed.
\<close>

definition controlPlaneReplicas :: "'p InstallConfig \<Rightarrow> panic + GoInt" where
  "controlPlaneReplicas ic =
     (case ControlPlane ic of
        None \<Rightarrow> Inl NilPointerDereference
      | Some pool \<Rightarrow>
          (case Replicas pool of None \<Rightarrow> Inl NilPointerDereference | Some r \<Rightarrow> Inr r))"

text \<open>
  The part of \<^verbatim>\<open>Generate\<close> after the descriptor literal: the network type, the virtual
  addresses, the serialisation and the final check. \<^verbatim>\<open>setNetworkType\<close> may have changed
  the install configuration, so the platform and the replica count are read from what it
  returned (it never returns nil for a configuration that was not nil).
\<close>

definition completeGenerate ::
  "'p collaborators \<Rightarrow> AgentClusterInstall \<Rightarrow> 'p InstallConfig \<Rightarrow> hiveext_AgentClusterInstall \<Rightarrow>
   panic + (AgentClusterInstall \<times> error option)" where
  "completeGenerate env a config agentClusterInstall =
     (case setNetworkType agentClusterInstall (Some config)
             ''NetworkType is not specified in InstallConfig.'' of
        Inl p \<Rightarrow> Inl p
      | Inr (aci, None, logged) \<Rightarrow> Inl NilPointerDereference
      | Inr (aci, Some config', logged) \<Rightarrow>
          (case getVIPs env (Platform config') of
             (apiVIP, ingressVIP) \<Rightarrow>
               (case controlPlaneReplicas config' of
                  Inl p \<Rightarrow> Inl p
                | Inr replicas \<Rightarrow>
                    (let aci' =
                           (if 1 <s replicas \<and> apiVIP \<noteq> [] \<and> ingressVIP \<noteq> []
                            then aci\<lparr>Spec := (Spec aci)\<lparr>APIVIP := apiVIP, IngressVIP := ingressVIP\<rparr>\<rparr>
                            else aci);
                         a1 = a\<lparr>Config := Some aci'\<rparr>
                     in case yaml_Marshal env aci' of
                          Inl err \<Rightarrow>
                            Inr (a1, Some (WithMessage err
                                   ''failed to marshal agent installer AgentClusterInstall''))
                        | Inr agentClusterInstallData \<Rightarrow>
                            (let a2 = a1\<lparr>File := Some \<lparr>Filename = agentClusterInstallFilename env,
                                                        Data = agentClusterInstallData\<rparr>\<rparr>
                             in case finish a2 of
                                  Inl p \<Rightarrow> Inl p
                                | Inr err \<Rightarrow> Inr (a2, err))))))"

text \<open>
  The descriptor literal of \<^verbatim>\<open>Generate\<close>: names from the helpers, the two networks, the
  trimmed SSH key and the two agent counts; the network type and the virtual addresses
  are still empty.
\<close>

definition newAgentClusterInstall ::
  "'p collaborators \<Rightarrow> 'p InstallConfig \<Rightarrow> ClusterNetworkEntry list \<Rightarrow> string list \<Rightarrow>
   GoInt \<Rightarrow> GoInt \<Rightarrow> hiveext_AgentClusterInstall" where
  "newAgentClusterInstall env config clusterNetwork serviceNetwork replicas numberOfWorkers =
     \<lparr>ObjectMeta =
        \<lparr>Name = getAgentClusterInstallName env config,
         Namespace = getObjectMetaNamespace env config\<rparr>,
      Spec =
        \<lparr>ImageSetRef = Some (getClusterImageSetReferenceName env),
         ClusterDeploymentRef = getClusterDeploymentName env config,
         Networking =
           \<lparr>ClusterNetwork = clusterNetwork,
            ServiceNetwork = serviceNetwork,
            NetworkType = []\<rparr>,
         SSHPublicKey = strings_Trim (SSHKey config) [CHR ''|'', CHR 0x0A, CHR 0x09],
         ProvisionRequirements =
           \<lparr>ControlPlaneAgents = replicas,
            WorkerAgents = numberOfWorkers\<rparr>,
         APIVIP = [],
         IngressVIP = []\<rparr>\<rparr>"

text \<open>
  \<^verbatim>\<open>Generate\<close>, given the install configuration that the parents hold (nil when there is
  none). The result is the asset as it is left, and the error returned.
\<close>

definition Generate ::
  "'p collaborators \<Rightarrow> AgentClusterInstall \<Rightarrow> 'p InstallConfig option \<Rightarrow>
   panic + (AgentClusterInstall \<times> error option)" where
  "Generate env a installConfig =
     (case installConfig of
        None \<Rightarrow> (case finish a of Inl p \<Rightarrow> Inl p | Inr err \<Rightarrow> Inr (a, err))
      | Some config \<Rightarrow>
          (case sumReplicas (Compute config) 0 of
             Inl p \<Rightarrow> Inl p
           | Inr numberOfWorkers \<Rightarrow>
               (case types_Networking config of
                  None \<Rightarrow> Inl NilPointerDereference
                | Some networking \<Rightarrow>
                    (case buildClusterNetwork (types_ClusterNetwork networking) [] of
                       Inl err \<Rightarrow> Inr (a, Some err)
                     | Inr clusterNetwork \<Rightarrow>
                         (case buildServiceNetwork (types_ServiceNetwork networking) [] of
                            Inl err \<Rightarrow> Inr (a, Some err)
                          | Inr serviceNetwork \<Rightarrow>
                              (case controlPlaneReplicas config of
                                 Inl p \<Rightarrow> Inl p
                               | Inr replicas \<Rightarrow>
                                   completeGenerate env a config
                                     (newAgentClusterInstall env config clusterNetwork
                                        serviceNetwork replicas numberOfWorkers)))))))"

section \<open>Notions and sample values used by the properties\<close>

text \<open>
  What the validator sees of a CIDR string: the address \<^verbatim>\<open>net.ParseCIDR\<close> returns (nil on
  failure), and whether parsing fails.
\<close>

definition parsedIP :: "string \<Rightarrow> IP" where
  "parsedIP s = (case net_ParseCIDR s of Inl err \<Rightarrow> [] | Inr (ip, ipnet) \<Rightarrow> ip)"

definition unparsable :: "string \<Rightarrow> bool" where
  "unparsable s = isl (net_ParseCIDR s)"

text \<open>
  What the loop of \<^verbatim>\<open>parseIPv6\<close> keeps true of its state: the index is even and at most
  16, the ellipsis is not beyond it, and the address has 16 bytes.
\<close>

definition v6inv :: "v6state \<Rightarrow> bool" where
  "v6inv st = (case st of (s, i, ip, e) \<Rightarrow> even i \<and> i \<le> 16 \<and> e \<le> int i \<and> length ip = 16)"

text \<open>The three characters that \<^verbatim>\<open>Generate\<close> trims from the SSH key.\<close>

definition cutset :: "char set" where
  "cutset = {CHR ''|'', CHR 0x0A, CHR 0x09}"

text \<open>A descriptor with a given network type and networks, and an asset that holds nothing.\<close>

definition descriptorWith ::
  "string \<Rightarrow> ClusterNetworkEntry list \<Rightarrow> string list \<Rightarrow> hiveext_AgentClusterInstall" where
  "descriptorWith networkType clusterNetwork serviceNetwork =
     \<lparr>ObjectMeta = \<lparr>Name = ''cluster'', Namespace = ''cluster-ns''\<rparr>,
      Spec =
        \<lparr>ImageSetRef = Some ''image-set'',
         ClusterDeploymentRef = ''cluster'',
         Networking =
           \<lparr>ClusterNetwork = clusterNetwork, ServiceNetwork = serviceNetwork,
            NetworkType = networkType\<rparr>,
         SSHPublicKey = [],
         ProvisionRequirements = \<lparr>ControlPlaneAgents = 3, WorkerAgents = 2\<rparr>,
         APIVIP = [],
         IngressVIP = []\<rparr>\<rparr>"

definition emptyAsset :: AgentClusterInstall where
  "emptyAsset = \<lparr>File = None, Config = None\<rparr>"

text \<open>
  Sample collaborators: the platform section is the pair of virtual addresses itself, the
  serialiser always succeeds, and the strict parser knows two documents.
\<close>

definition testCollaborators :: "(string \<times> string) collaborators" where
  "testCollaborators =
     \<lparr>agentClusterInstallFilename = ''cluster-manifests/agent-cluster-install.yaml'',
      getAgentClusterInstallName = (\<lambda>ic. Name (types_ObjectMeta ic)),
      getObjectMetaNamespace = (\<lambda>ic. Namespace (types_ObjectMeta ic)),
      getClusterImageSetReferenceName = ''openshift-v4.12.0'',
      getClusterDeploymentName = (\<lambda>ic. Name (types_ObjectMeta ic)),
      getVIPs = (\<lambda>p. p),
      yaml_Marshal = (\<lambda>aci. Inr ''serialised''),
      yaml_UnmarshalStrict =
        (\<lambda>data. if data = ''sdn'' then
                   Inr (descriptorWith NetworkTypeOpenShiftSDN
                          [\<lparr>CIDR = ''fd01::/48'', HostPrefix = 64\<rparr>] [])
                 else if data = ''unset'' then
                   Inr (descriptorWith []
                          [\<lparr>CIDR = ''10.128.0.0/14'', HostPrefix = 23\<rparr>] [''172.30.0.0/16''])
                 else Inl (ErrorString ''yaml: unknown field''))\<rparr>"

text \<open>
  The install configuration of the scenarios: two compute pools of three replicas,
  cluster network 10.128.0.0/14 with host prefix 23, service network 172.30.0.0/16, no
  network type, the platform addresses 192.168.1.10 and 192.168.1.11, and a given number
  of control-plane replicas.
\<close>

definition scenarioInstallConfig :: "int64 \<Rightarrow> (string \<times> string) InstallConfig" where
  "scenarioInstallConfig replicas =
     \<lparr>types_ObjectMeta = \<lparr>Name = ''ocp'', Namespace = ''cluster0''\<rparr>,
      SSHKey = [CHR ''|'', CHR 0x0A] @ ''ssh-rsa AAAA|B core@host'' @ [CHR 0x0A, CHR 0x09],
      ControlPlane = Some \<lparr>PoolName = ''master'', Replicas = Some replicas\<rparr>,
      Compute = [\<lparr>PoolName = ''worker'', Replicas = Some 3\<rparr>,
                 \<lparr>PoolName = ''worker-b'', Replicas = Some 3\<rparr>],
      types_Networking =
        Some \<lparr>types_NetworkType = [],
              types_ClusterNetwork =
                [\<lparr>types_CIDR = \<lparr>IP = IPv4 10 128 0 0, Mask = [0xff, 0xfc, 0, 0]\<rparr>,
                  types_HostPrefix = 23\<rparr>],
              types_ServiceNetwork = [\<lparr>IP = IPv4 172 30 0 0, Mask = [0xff, 0xff, 0, 0]\<rparr>]\<rparr>,
      Platform = (''192.168.1.10'', ''192.168.1.11'')\<rparr>"

section \<open>Properties\<close>

subsection \<open>Auxiliary facts\<close>

lemma clusterNetworkLoop_eq:
  "clusterNetworkLoop cns allErrs h =
     (allErrs @ map (\<lambda>cn. Required clusterNetworkPath ''error parsing the clusterNetwork CIDR'')
                  (filter (\<lambda>cn. unparsable (CIDR cn)) cns),
      h \<or> (\<exists>cn \<in> set cns. isIPv6 (parsedIP (CIDR cn))))"
  by (induction cns arbitrary: allErrs h)
     (auto simp: unparsable_def parsedIP_def Let_def split: sum.splits prod.splits)

lemma serviceNetworkLoop_eq:
  "serviceNetworkLoop cidrs allErrs h =
     (allErrs @ map (\<lambda>c. Required serviceNetworkPath ''error parsing the clusterNetwork CIDR'')
                  (filter unparsable cidrs),
      h \<or> (\<exists>c \<in> set cidrs. isIPv6 (parsedIP c)))"
  by (induction cidrs arbitrary: allErrs h)
     (auto simp: unparsable_def parsedIP_def Let_def split: sum.splits prod.splits)

lemma length_IPv4: "length (IPv4 a b c d) = 16"
  by (simp add: IPv4_def v4InV6Prefix_def)

lemma parseIPv4_length: "parseIPv4 s = [] \<or> length (parseIPv4 s) = 16"
  by (simp add: parseIPv4_def length_IPv4 split: option.splits prod.splits)

lemma parseIPv6_body_inv:
  assumes "v6inv st" and "fst (snd st) < 16"
    and "parseIPv6_body st = Break st' \<or> parseIPv6_body st = Continue st'"
  shows "v6inv st'"
proof -
  obtain s i ip e where st: "st = (s, i, ip, e)" by (cases st)
  from assms(1,2) st have i: "even i" "i < 16" "e \<le> int i" "length ip = 16"
    by (auto simp: v6inv_def)
  then have "i + 2 \<le> 16" by presburger
  with assms(3) st i show ?thesis
    by (auto simp: parseIPv6_body_def v6inv_def Let_def IPv6len_def IPv4len_def
        split: prod.splits if_splits)
qed

lemma parseIPv6_loop_inv:
  "v6inv st \<Longrightarrow> parseIPv6_loop st = Some st' \<Longrightarrow> v6inv st'"
proof (induction st arbitrary: st' rule: parseIPv6_loop.induct)
  case (1 s i ip ellipsis)
  show ?case
  proof (cases "i < IPv6len")
    case False
    with "1.prems" show ?thesis
      by (simp add: parseIPv6_loop.simps)
  next
    case True
    then have lt: "fst (snd (s, i, ip, ellipsis)) < 16"
      by (simp add: IPv6len_def)
    show ?thesis
    proof (cases "parseIPv6_body (s, i, ip, ellipsis)")
      case ReturnNil
      with True "1.prems" show ?thesis
        by (simp add: parseIPv6_loop.simps)
    next
      case (Break x)
      with True "1.prems" have "st' = x"
        by (simp add: parseIPv6_loop.simps)
      with Break "1.prems"(1) lt show ?thesis
        using parseIPv6_body_inv by blast
    next
      case (Continue x)
      with "1.prems"(1) lt have inv: "v6inv x"
        using parseIPv6_body_inv by blast
      from Continue True "1.prems"(2) have "parseIPv6_loop x = Some st'"
        by (simp add: parseIPv6_loop.simps)
      with "1.IH" [OF True Continue inv] show ?thesis .
    qed
  qed
qed

lemma parseIPv6_length: "parseIPv6 s = [] \<or> length (parseIPv6 s) = 16"
proof -
  let ?lead = "length s \<ge> 2 \<and> s ! 0 = CHR '':'' \<and> s ! 1 = CHR '':''"
  let ?st = "(if ?lead then drop 2 s else s, 0::nat, replicate IPv6len (0::byte),
              if ?lead then 0 else - 1 :: int)"
  have inv0: "v6inv ?st"
    by (simp add: v6inv_def IPv6len_def)
  show ?thesis
  proof (cases "parseIPv6_loop ?st")
    case None
    then show ?thesis
      by (simp add: parseIPv6_def Let_def IPv6len_def)
  next
    case (Some st')
    obtain s1 i ip e where st': "st' = (s1, i, ip, e)" by (cases st')
    from parseIPv6_loop_inv [OF inv0 Some] st'
    have "even i" "i \<le> 16" "e \<le> int i" "length ip = 16"
      by (auto simp: v6inv_def)
    then have "e \<ge> 0 \<Longrightarrow> i < 16 \<Longrightarrow> length (expandEllipsis ip i (nat e)) = 16"
      by (simp add: expandEllipsis_def IPv6len_def)
    with Some st' \<open>length ip = 16\<close> show ?thesis
      by (auto simp: parseIPv6_def Let_def IPv6len_def)
  qed
qed

lemma parsedIP_length: "net_ParseCIDR s = Inr (ip, n) \<Longrightarrow> length ip = 16"
  using parseIPv4_length [of "take (the (IndexByte s (CHR ''/''))) s"]
    parseIPv6_length [of "take (the (IndexByte s (CHR ''/''))) s"]
  by (auto simp: net_ParseCIDR_def Let_def split: option.splits prod.splits if_splits)

lemma isIPv6_parsedIP: "isIPv6 (parsedIP s) \<longleftrightarrow> \<not> unparsable s"
proof (cases "net_ParseCIDR s")
  case (Inl e)
  then show ?thesis
    by (simp add: parsedIP_def unparsable_def isIPv6_def To16_def IPv4len_def IPv6len_def)
next
  case (Inr r)
  obtain ip n where r: "r = (ip, n)" by (cases r)
  with Inr have "length ip = 16" using parsedIP_length by blast
  with Inr r show ?thesis
    by (auto simp: parsedIP_def unparsable_def isIPv6_def To16_def IPv4len_def IPv6len_def)
qed

text \<open>
  Under the network type OpenShiftSDN the validator returns, for the cluster networks and
  then for the service networks, one "required" error per entry that does not parse,
  followed by the incompatibility error if at least one entry parses.
\<close>

lemma validate_OpenShiftSDN:
  assumes "NetworkType (Networking (Spec d)) = NetworkTypeOpenShiftSDN"
  shows "validateIPAddressAndNetworkType (a\<lparr>Config := Some d\<rparr>) =
     Inr (map (\<lambda>cn. Required clusterNetworkPath ''error parsing the clusterNetwork CIDR'')
            (filter (\<lambda>cn. unparsable (CIDR cn)) (ClusterNetwork (Networking (Spec d)))) @
          (if \<exists>cn \<in> set (ClusterNetwork (Networking (Spec d))). \<not> unparsable (CIDR cn)
           then [Required fieldPath
                   (''clusterNetwork CIDR is IPv6 and is not compatible with networkType '' @
                    NetworkTypeOpenShiftSDN)]
           else []) @
          map (\<lambda>c. Required serviceNetworkPath ''error parsing the clusterNetwork CIDR'')
            (filter unparsable (ServiceNetwork (Networking (Spec d)))) @
          (if \<exists>c \<in> set (ServiceNetwork (Networking (Spec d))). \<not> unparsable c
           then [Required fieldPath
                   (''serviceNetwork CIDR is IPv6 and is not compatible with networkType '' @
                    NetworkTypeOpenShiftSDN)]
           else []))"
  using assms
  by (simp add: validateIPAddressAndNetworkType_def clusterNetworkLoop_eq serviceNetworkLoop_eq
      isIPv6_parsedIP Let_def)

lemma parse_fd01:
  "net_ParseCIDR ''fd01::/48'' =
     Inr ([0xfd, 1, 0, 0, 0, 0, 0, 0, 0, 0, 0, 0, 0, 0, 0, 0],
          \<lparr>IP = [0xfd, 1, 0, 0, 0, 0, 0, 0, 0, 0, 0, 0, 0, 0, 0, 0],
           Mask = [0xff, 0xff, 0xff, 0xff, 0xff, 0xff, 0, 0, 0, 0, 0, 0, 0, 0, 0, 0]\<rparr>)"
  by code_simp

lemma path_strings:
  "Path_String fieldPath = ''spec.networking.networkType''"
  "Path_String clusterNetworkPath = ''spec.networking.clusterNetwork''"
  "Path_String serviceNetworkPath = ''spec.networking.serviceNetwork''"
  by (simp_all add: fieldPath_def clusterNetworkPath_def serviceNetworkPath_def NewPath_def)

lemma setNetworkType_populated:
  "NetworkType (Networking (Spec aci)) \<noteq> [] \<Longrightarrow>
   setNetworkType aci ico m = Inr (aci, ico, [])"
  by (simp add: setNetworkType_def)

lemma setNetworkType_Some:
  "\<exists>aci' ic' l. setNetworkType aci (Some ic) m = Inr (aci', Some ic', l) \<and>
      NetworkType (Networking (Spec aci')) \<noteq> [] \<and>
      aci' = withNetworkType aci (NetworkType (Networking (Spec aci'))) \<and>
      Platform ic' = Platform ic \<and> ControlPlane ic' = ControlPlane ic"
  by (auto simp: setNetworkType_def SetInstallConfigDefaults_def withNetworkType_def
      defaultNetworkType_def Let_def split: option.splits)

lemma validate_Config:
  "Config a = Some d \<Longrightarrow>
   \<exists>errs. validateIPAddressAndNetworkType a = Inr errs \<and>
     (NetworkType (Networking (Spec d)) \<noteq> NetworkTypeOpenShiftSDN \<longrightarrow> errs = [])"
  by (simp add: validateIPAddressAndNetworkType_def Let_def split: prod.splits)

lemma validate_only_Config:
  "Config a = Config b \<Longrightarrow> validateIPAddressAndNetworkType a = validateIPAddressAndNetworkType b"
  by (simp add: validateIPAddressAndNetworkType_def)

lemma finish_Config:
  "Config a = Some d \<Longrightarrow> validateIPAddressAndNetworkType a = Inr errs \<Longrightarrow>
   finish a = Inr (if errs = [] then None
                   else Some (WithMessage (Aggregate (distinctMessages errs []))
                                ''invalid NetworkType configured''))"
  by (cases errs) (simp_all add: finish_def ToAggregate_def)

lemma Generate_Some_success:
  assumes "Generate env a (Some ic) = Inr (a', None)"
  shows "\<exists>n nw cn sn r.
           sumReplicas (Compute ic) 0 = Inr n \<and>
           types_Networking ic = Some nw \<and>
           buildClusterNetwork (types_ClusterNetwork nw) [] = Inr cn \<and>
           buildServiceNetwork (types_ServiceNetwork nw) [] = Inr sn \<and>
           controlPlaneReplicas ic = Inr r \<and>
           completeGenerate env a ic (newAgentClusterInstall env ic cn sn r n) = Inr (a', None)"
  using assms
  by (auto simp: Generate_def split: sum.splits option.splits)

lemma completeGenerate_Config:
  assumes "completeGenerate env a ic aci = Inr (a', e)"
  shows "\<exists>r t. controlPlaneReplicas ic = Inr r \<and> t \<noteq> [] \<and>
           Config a' =
             Some (if 1 <s r \<and> fst (getVIPs env (Platform ic)) \<noteq> [] \<and>
                      snd (getVIPs env (Platform ic)) \<noteq> []
                   then (withNetworkType aci t)
                     \<lparr>Spec := (Spec (withNetworkType aci t))
                        \<lparr>APIVIP := fst (getVIPs env (Platform ic)),
                         IngressVIP := snd (getVIPs env (Platform ic))\<rparr>\<rparr>
                   else withNetworkType aci t)"
proof -
  obtain aci' ic' l where s: "setNetworkType aci (Some ic)
        ''NetworkType is not specified in InstallConfig.'' = Inr (aci', Some ic', l)"
    and t: "NetworkType (Networking (Spec aci')) \<noteq> []"
    and w: "aci' = withNetworkType aci (NetworkType (Networking (Spec aci')))"
    and p: "Platform ic' = Platform ic" and c: "ControlPlane ic' = ControlPlane ic"
    using setNetworkType_Some [of aci ic] by blast
  have r: "controlPlaneReplicas ic' = controlPlaneReplicas ic"
    using c by (simp add: controlPlaneReplicas_def)
  obtain apiVIP ingressVIP where v: "getVIPs env (Platform ic) = (apiVIP, ingressVIP)"
    by (cases "getVIPs env (Platform ic)")
  from assms s p r v obtain rr where rr: "controlPlaneReplicas ic = Inr rr"
    by (cases "controlPlaneReplicas ic") (auto simp: completeGenerate_def)
  let ?t = "NetworkType (Networking (Spec aci'))"
  from assms s p r v rr w have "Config a' =
             Some (if 1 <s rr \<and> apiVIP \<noteq> [] \<and> ingressVIP \<noteq> []
                   then (withNetworkType aci ?t)
                     \<lparr>Spec := (Spec (withNetworkType aci ?t))
                        \<lparr>APIVIP := apiVIP, IngressVIP := ingressVIP\<rparr>\<rparr>
                   else withNetworkType aci ?t)"
    by (auto simp: completeGenerate_def Let_def split: sum.splits if_splits)
  with rr t v show ?thesis by auto
qed

lemma Load_sdn:
  "validateIPAddressAndNetworkType
     (emptyAsset\<lparr>Config := Some (descriptorWith NetworkTypeOpenShiftSDN
        [\<lparr>CIDR = ''fd01::/48'', HostPrefix = 64\<rparr>] [])\<rparr>) \<noteq> Inr []"
  by code_simp

lemma Load_unset:
  "Load testCollaborators emptyAsset (\<lambda>n. Inr \<lparr>Filename = n, Data = ''unset''\<rparr>) =
     Inr (\<lparr>File = Some \<lparr>Filename = ''cluster-manifests/agent-cluster-install.yaml'', Data = ''unset''\<rparr>,
           Config = Some (descriptorWith ''OVNKubernetes''
                     [\<lparr>CIDR = ''10.128.0.0/14'', HostPrefix = 23\<rparr>] [''172.30.0.0/16''])\<rparr>,
          True, None)"
  by code_simp

lemma Generate_three:
  "Generate testCollaborators emptyAsset (Some (scenarioInstallConfig 3)) =
     Inr (\<lparr>File = Some \<lparr>Filename = ''cluster-manifests/agent-cluster-install.yaml'',
                         Data = ''serialised''\<rparr>,
           Config = Some
             \<lparr>ObjectMeta = \<lparr>Name = ''ocp'', Namespace = ''cluster0''\<rparr>,
              Spec =
                \<lparr>ImageSetRef = Some ''openshift-v4.12.0'',
                 ClusterDeploymentRef = ''ocp'',
                 Networking =
                   \<lparr>ClusterNetwork = [\<lparr>CIDR = ''10.128.0.0/14'', HostPrefix = 23\<rparr>],
                    ServiceNetwork = [''172.30.0.0/16''],
                    NetworkType = ''OVNKubernetes''\<rparr>,
                 SSHPublicKey = ''ssh-rsa AAAA|B core@host'',
                 ProvisionRequirements = \<lparr>ControlPlaneAgents = 3, WorkerAgents = 6\<rparr>,
                 APIVIP = ''192.168.1.10'',
                 IngressVIP = ''192.168.1.11''\<rparr>\<rparr>\<rparr>, None)"
  by code_simp

lemma Generate_one:
  "Generate testCollaborators emptyAsset (Some (scenarioInstallConfig 1)) =
     Inr (\<lparr>File = Some \<lparr>Filename = ''cluster-manifests/agent-cluster-install.yaml'',
                         Data = ''serialised''\<rparr>,
           Config = Some
             \<lparr>ObjectMeta = \<lparr>Name = ''ocp'', Namespace = ''cluster0''\<rparr>,
              Spec =
                \<lparr>ImageSetRef = Some ''openshift-v4.12.0'',
                 ClusterDeploymentRef = ''ocp'',
                 Networking =
                   \<lparr>ClusterNetwork = [\<lparr>CIDR = ''10.128.0.0/14'', HostPrefix = 23\<rparr>],
                    ServiceNetwork = [''172.30.0.0/16''],
                    NetworkType = ''OVNKubernetes''\<rparr>,
                 SSHPublicKey = ''ssh-rsa AAAA|B core@host'',
                 ProvisionRequirements = \<lparr>ControlPlaneAgents = 1, WorkerAgents = 6\<rparr>,
                 APIVIP = [],
                 IngressVIP = []\<rparr>\<rparr>\<rparr>, None)"
  by code_simp

lemma trimRightASCII_decomp:
  "\<exists>post. s = trimRightASCII s cs @ post \<and> set post \<subseteq> set cs"
proof -
  have "rev s = takeWhile (\<lambda>c. c \<in> set cs) (rev s) @ dropWhile (\<lambda>c. c \<in> set cs) (rev s)"
    by simp
  then have "s = rev (dropWhile (\<lambda>c. c \<in> set cs) (rev s)) @ rev (takeWhile (\<lambda>c. c \<in> set cs) (rev s))"
    by (metis rev_append rev_rev_ident)
  moreover have "set (rev (takeWhile (\<lambda>c. c \<in> set cs) (rev s))) \<subseteq> set cs"
    by (auto dest: set_takeWhileD)
  ultimately show ?thesis
    unfolding trimRightASCII_def by blast
qed

lemma trimLeftASCII_decomp:
  "\<exists>pre. s = pre @ trimLeftASCII s cs \<and> set pre \<subseteq> set cs"
proof -
  have "s = takeWhile (\<lambda>c. c \<in> set cs) s @ dropWhile (\<lambda>c. c \<in> set cs) s"
    by simp
  moreover have "set (takeWhile (\<lambda>c. c \<in> set cs) s) \<subseteq> set cs"
    by (auto dest: set_takeWhileD)
  ultimately show ?thesis
    unfolding trimLeftASCII_def by blast
qed

lemma strings_Trim_decomp:
  "\<exists>pre post. s = pre @ strings_Trim s cs @ post \<and> set pre \<subseteq> set cs \<and> set post \<subseteq> set cs"
proof (cases "s = [] \<or> cs = []")
  case True
  then have "s = [] @ strings_Trim s cs @ []"
    by (simp add: strings_Trim_def)
  then show ?thesis by (metis empty_set empty_subsetI)
next
  case False
  obtain post where post: "s = trimRightASCII s cs @ post" "set post \<subseteq> set cs"
    using trimRightASCII_decomp by blast
  obtain pre where pre: "trimRightASCII s cs = pre @ trimLeftASCII (trimRightASCII s cs) cs"
    "set pre \<subseteq> set cs"
    using trimLeftASCII_decomp by blast
  have "s = (pre @ trimLeftASCII (trimRightASCII s cs) cs) @ post"
    using post(1) pre(1) by metis
  then have "s = pre @ strings_Trim s cs @ post"
    using False by (simp add: strings_Trim_def)
  with pre(2) post(2) show ?thesis by blast
qed

lemma trimRightASCII_last:
  "trimRightASCII s cs \<noteq> [] \<Longrightarrow> last (trimRightASCII s cs) \<notin> set cs"
  unfolding trimRightASCII_def
  by (metis (mono_tags, lifting) hd_dropWhile last_rev rev_is_Nil_conv rev_rev_ident)

lemma strings_Trim_ends:
  assumes "strings_Trim s cs \<noteq> []"
  shows "hd (strings_Trim s cs) \<notin> set cs \<and> last (strings_Trim s cs) \<notin> set cs"
proof (cases "cs = []")
  case True
  then show ?thesis by simp
next
  case False
  with assms have ne: "s \<noteq> []"
    by (auto simp: strings_Trim_def)
  let ?t = "trimRightASCII s cs"
  have eq: "strings_Trim s cs = dropWhile (\<lambda>c. c \<in> set cs) ?t"
    using False ne by (simp add: strings_Trim_def trimLeftASCII_def)
  with assms have tne: "?t \<noteq> []" by auto
  have hd: "hd (strings_Trim s cs) \<notin> set cs"
    using assms eq hd_dropWhile [of "\<lambda>c. c \<in> set cs" ?t] by simp
  have "?t = takeWhile (\<lambda>c. c \<in> set cs) ?t @ strings_Trim s cs"
    using eq by simp
  then have "last ?t = last (strings_Trim s cs)"
    using assms by (metis last_appendR)
  with trimRightASCII_last [OF tne] hd show ?thesis by simp
qed

lemma strings_Trim_fixed:
  assumes "t = [] \<or> (hd t \<notin> set cs \<and> last t \<notin> set cs)"
  shows "strings_Trim t cs = t"
proof (cases "t = []")
  case True
  then show ?thesis by (simp add: strings_Trim_def)
next
  case False
  with assms have h: "hd t \<notin> set cs" and l: "last t \<notin> set cs" by auto
  have "dropWhile (\<lambda>c. c \<in> set cs) (rev t) = rev t"
    using False l by (cases "rev t") (auto simp: last_rev [symmetric] simp del: last_rev)
  then have r: "trimRightASCII t cs = t"
    by (simp add: trimRightASCII_def)
  have "dropWhile (\<lambda>c. c \<in> set cs) t = t"
    using False h by (cases t) auto
  with r show ?thesis
    by (simp add: strings_Trim_def trimLeftASCII_def)
qed

lemma parse_10_128:
  "net_ParseCIDR ''10.128.0.0/14'' =
     Inr (IPv4 10 128 0 0, \<lparr>IP = [10, 128, 0, 0], Mask = [0xff, 0xfc, 0, 0]\<rparr>)"
  by code_simp

lemma subnet_10_128:
  "validate_SubnetCIDR \<lparr>IP = [10, 128, 0, 0], Mask = [0xff, 0xfc, 0, 0]\<rparr> = None"
  by code_simp

lemma string_10_128:
  "IPNet_String \<lparr>IP = [10, 128, 0, 0], Mask = [0xff, 0xfc, 0, 0]\<rparr> = ''10.128.0.0/14''"
  by code_simp

lemma parse_172_30:
  "ipnet_ParseCIDR ''172.30.0.0/16'' = Inr \<lparr>IP = IPv4 172 30 0 0, Mask = [0xff, 0xff, 0, 0]\<rparr>"
  by code_simp

lemma string_172_30:
  "ipnet_String \<lparr>IP = IPv4 172 30 0 0, Mask = [0xff, 0xff, 0, 0]\<rparr> = ''172.30.0.0/16''"
  by code_simp

subsection \<open>Properties of the specification\<close>

text \<open>
  \<^bold>\<open>C1.\<close> Under the network type OpenShiftSDN the validator should add the incompatibility
  error only when some CIDR is IPv6, and return no error when every cluster-network and
  service-network CIDR is a valid IPv4 range. The code decides the family with
  \<^verbatim>\<open>isIPv6\<close>, which tests \<^verbatim>\<open>To16() != nil\<close>, and that holds for every address that parses,
  IPv4 included (\<open>isIPv6_parsedIP\<close>, \<open>validate_OpenShiftSDN\<close>). The theorem evaluates the
  validator on a descriptor whose networks are 10.128.0.0/14 and 172.30.0.0/16: both
  incompatibility errors are reported.
\<close>

theorem validate_IPv4_under_OpenShiftSDN:
  "validateIPAddressAndNetworkType
     (emptyAsset\<lparr>Config := Some (descriptorWith NetworkTypeOpenShiftSDN
        [\<lparr>CIDR = ''10.128.0.0/14'', HostPrefix = 23\<rparr>] [''172.30.0.0/16''])\<rparr>) =
   Inr [Required fieldPath
          ''clusterNetwork CIDR is IPv6 and is not compatible with networkType OpenShiftSDN'',
        Required fieldPath
          ''serviceNetwork CIDR is IPv6 and is not compatible with networkType OpenShiftSDN'']"
  by code_simp

text \<open>
  \<^bold>\<open>C2.\<close> For a descriptor with network type OpenShiftSDN, the single cluster network
  fd01::/48 and no service network, the validator returns exactly one error; it is at
  the path of the network type, and none is at the path of the cluster network.
\<close>

theorem validate_fd01:
  assumes "NetworkType (Networking (Spec d)) = NetworkTypeOpenShiftSDN"
    and "ClusterNetwork (Networking (Spec d)) = [cn]"
    and "CIDR cn = ''fd01::/48''"
    and "ServiceNetwork (Networking (Spec d)) = []"
  shows "\<exists>errs. validateIPAddressAndNetworkType (a\<lparr>Config := Some d\<rparr>) = Inr errs \<and>
           length errs = 1 \<and>
           length (filter (\<lambda>e. Field' e = ''spec.networking.networkType'') errs) = 1 \<and>
           length (filter (\<lambda>e. Field' e = ''spec.networking.clusterNetwork'') errs) = 0"
proof -
  have ip: "isIPv6 (parsedIP ''fd01::/48'')"
    by (simp add: parsedIP_def parse_fd01 isIPv6_def To16_def IPv4len_def IPv6len_def)
  have np: "\<not> unparsable ''fd01::/48''"
    by (simp add: unparsable_def parse_fd01)
  show ?thesis
    using assms ip np
    by (simp add: validateIPAddressAndNetworkType_def clusterNetworkLoop_eq Required_def path_strings)
qed

theorem validate_fd01_witness:
  "\<exists>errs. validateIPAddressAndNetworkType
     (emptyAsset\<lparr>Config := Some (descriptorWith NetworkTypeOpenShiftSDN
        [\<lparr>CIDR = ''fd01::/48'', HostPrefix = 64\<rparr>] [])\<rparr>) = Inr errs \<and>
           length errs = 1 \<and>
           length (filter (\<lambda>e. Field' e = ''spec.networking.networkType'') errs) = 1 \<and>
           length (filter (\<lambda>e. Field' e = ''spec.networking.clusterNetwork'') errs) = 0"
  using validate_fd01 [of "descriptorWith NetworkTypeOpenShiftSDN
        [\<lparr>CIDR = ''fd01::/48'', HostPrefix = 64\<rparr>] []" "\<lparr>CIDR = ''fd01::/48'', HostPrefix = 64\<rparr>" emptyAsset]
  by (simp add: descriptorWith_def)

text \<open>
  \<^bold>\<open>C3.\<close> For every descriptor whose network type is not OpenShiftSDN the validator
  returns the empty list, whatever its cluster and service networks are, parsable or not.
\<close>

theorem validate_other_network_type:
  "NetworkType (Networking (Spec d)) \<noteq> NetworkTypeOpenShiftSDN \<Longrightarrow>
   validateIPAddressAndNetworkType (a\<lparr>Config := Some d\<rparr>) = Inr []"
  by (simp add: validateIPAddressAndNetworkType_def)

theorem validate_other_network_type_witness:
  "NetworkType (Networking (Spec (descriptorWith ''OVNKubernetes''
      [\<lparr>CIDR = ''fd01::/48'', HostPrefix = 64\<rparr>, \<lparr>CIDR = ''not a CIDR'', HostPrefix = 0\<rparr>]
      [''172.30.0.0/16'', ''fd02::/112'']))) \<noteq> NetworkTypeOpenShiftSDN \<and>
   validateIPAddressAndNetworkType
     (emptyAsset\<lparr>Config := Some (descriptorWith ''OVNKubernetes''
        [\<lparr>CIDR = ''fd01::/48'', HostPrefix = 64\<rparr>, \<lparr>CIDR = ''not a CIDR'', HostPrefix = 0\<rparr>]
        [''172.30.0.0/16'', ''fd02::/112''])\<rparr>) = Inr []"
proof -
  have other: "NetworkType (Networking (Spec (descriptorWith ''OVNKubernetes''
      [\<lparr>CIDR = ''fd01::/48'', HostPrefix = 64\<rparr>, \<lparr>CIDR = ''not a CIDR'', HostPrefix = 0\<rparr>]
      [''172.30.0.0/16'', ''fd02::/112'']))) \<noteq> NetworkTypeOpenShiftSDN"
    by (simp add: descriptorWith_def NetworkTypeOpenShiftSDN_def)
  show ?thesis
    using other validate_other_network_type [OF other, of emptyAsset] by simp
qed

text \<open>
  \<^bold>\<open>C4.\<close> For every descriptor with network type OpenShiftSDN the validator returns a list
  (it does not stop at an entry that fails to parse) in which the number of "required"
  errors at the cluster-network path is the number of cluster-network entries that do not
  parse, and the number of those at the service-network path is the number of
  service-network entries that do not parse.
\<close>

theorem validate_counts_parse_errors:
  assumes "NetworkType (Networking (Spec d)) = NetworkTypeOpenShiftSDN"
  shows "\<exists>errs. validateIPAddressAndNetworkType (a\<lparr>Config := Some d\<rparr>) = Inr errs \<and>
           length (filter (\<lambda>e. Type e = ErrorTypeRequired \<and>
                               Field' e = ''spec.networking.clusterNetwork'') errs) =
           length (filter (\<lambda>cn. unparsable (CIDR cn)) (ClusterNetwork (Networking (Spec d)))) \<and>
           length (filter (\<lambda>e. Type e = ErrorTypeRequired \<and>
                               Field' e = ''spec.networking.serviceNetwork'') errs) =
           length (filter unparsable (ServiceNetwork (Networking (Spec d))))"
  using assms
  by (simp add: validateIPAddressAndNetworkType_def clusterNetworkLoop_eq serviceNetworkLoop_eq
      Required_def path_strings Let_def)

theorem validate_counts_parse_errors_witness:
  "NetworkType (Networking (Spec (descriptorWith NetworkTypeOpenShiftSDN
      [\<lparr>CIDR = ''10.128.0.0/14'', HostPrefix = 23\<rparr>, \<lparr>CIDR = ''bogus'', HostPrefix = 23\<rparr>,
       \<lparr>CIDR = ''fd01::/48'', HostPrefix = 64\<rparr>, \<lparr>CIDR = ''10.0.0.0/33'', HostPrefix = 23\<rparr>]
      [''172.30.0.0/16'', ''172.30.0.0'']))) = NetworkTypeOpenShiftSDN \<and>
   (\<exists>errs. validateIPAddressAndNetworkType
      (emptyAsset\<lparr>Config := Some (descriptorWith NetworkTypeOpenShiftSDN
        [\<lparr>CIDR = ''10.128.0.0/14'', HostPrefix = 23\<rparr>, \<lparr>CIDR = ''bogus'', HostPrefix = 23\<rparr>,
         \<lparr>CIDR = ''fd01::/48'', HostPrefix = 64\<rparr>, \<lparr>CIDR = ''10.0.0.0/33'', HostPrefix = 23\<rparr>]
        [''172.30.0.0/16'', ''172.30.0.0''])\<rparr>) = Inr errs \<and>
      length (filter (\<lambda>e. Type e = ErrorTypeRequired \<and>
                          Field' e = ''spec.networking.clusterNetwork'') errs) = 2 \<and>
      length (filter (\<lambda>e. Type e = ErrorTypeRequired \<and>
                          Field' e = ''spec.networking.serviceNetwork'') errs) = 1)"
proof -
  let ?cns = "[\<lparr>CIDR = ''10.128.0.0/14'', HostPrefix = 23\<rparr>, \<lparr>CIDR = ''bogus'', HostPrefix = 23\<rparr>,
       \<lparr>CIDR = ''fd01::/48'', HostPrefix = 64\<rparr>, \<lparr>CIDR = ''10.0.0.0/33'', HostPrefix = 23\<rparr>]"
  let ?sns = "[''172.30.0.0/16'', ''172.30.0.0'']"
  let ?d = "descriptorWith NetworkTypeOpenShiftSDN ?cns ?sns"
  have sdn: "NetworkType (Networking (Spec ?d)) = NetworkTypeOpenShiftSDN"
    by (simp add: descriptorWith_def)
  have cn: "length (filter (\<lambda>cn. unparsable (CIDR cn)) (ClusterNetwork (Networking (Spec ?d)))) = 2"
    by code_simp
  have sn: "length (filter unparsable (ServiceNetwork (Networking (Spec ?d)))) = 1"
    by code_simp
  show ?thesis
    using sdn cn sn validate_counts_parse_errors [OF sdn, of emptyAsset] by simp
qed

text \<open>
  \<^bold>\<open>C5.\<close> When \<^verbatim>\<open>Generate\<close> accepts an install configuration, a virtual address of the
  built descriptor is non-empty only if the control-plane replica count is greater than
  one and both addresses returned by \<^verbatim>\<open>getVIPs\<close> are non-empty; with one control-plane
  replica both fields are empty whatever \<^verbatim>\<open>getVIPs\<close> returns.
\<close>

theorem Generate_VIPs:
  assumes "Generate env a (Some ic) = Inr (a', None)"
  shows "\<exists>d r. Config a' = Some d \<and> controlPlaneReplicas ic = Inr r \<and>
           (APIVIP (Spec d) \<noteq> [] \<or> IngressVIP (Spec d) \<noteq> [] \<longrightarrow>
              1 <s r \<and> fst (getVIPs env (Platform ic)) \<noteq> [] \<and>
              snd (getVIPs env (Platform ic)) \<noteq> []) \<and>
           (r = 1 \<longrightarrow> APIVIP (Spec d) = [] \<and> IngressVIP (Spec d) = [])"
proof -
  obtain n nw cn sn r where
    c: "completeGenerate env a ic (newAgentClusterInstall env ic cn sn r n) = Inr (a', None)"
    and r: "controlPlaneReplicas ic = Inr r"
    using Generate_Some_success [OF assms] by blast
  show ?thesis
    using completeGenerate_Config [OF c] r
    by (auto simp: withNetworkType_def newAgentClusterInstall_def)
qed

theorem Generate_VIPs_witness:
  "(\<exists>a' d. Generate testCollaborators emptyAsset (Some (scenarioInstallConfig 3)) = Inr (a', None) \<and>
      Config a' = Some d \<and> APIVIP (Spec d) \<noteq> [] \<and> IngressVIP (Spec d) \<noteq> [] \<and>
      controlPlaneReplicas (scenarioInstallConfig 3) = Inr 3 \<and> 1 <s (3 :: int64) \<and>
      fst (getVIPs testCollaborators (Platform (scenarioInstallConfig 3))) \<noteq> [] \<and>
      snd (getVIPs testCollaborators (Platform (scenarioInstallConfig 3))) \<noteq> []) \<and>
   (\<exists>a' d. Generate testCollaborators emptyAsset (Some (scenarioInstallConfig 1)) = Inr (a', None) \<and>
      Config a' = Some d \<and> controlPlaneReplicas (scenarioInstallConfig 1) = Inr 1 \<and>
      APIVIP (Spec d) = [] \<and> IngressVIP (Spec d) = [])"
proof -
  have r3: "controlPlaneReplicas (scenarioInstallConfig 3) = Inr 3"
    and r1: "controlPlaneReplicas (scenarioInstallConfig 1) = Inr 1"
    by (simp_all add: controlPlaneReplicas_def scenarioInstallConfig_def)
  have three: "\<exists>a' d. Generate testCollaborators emptyAsset (Some (scenarioInstallConfig 3)) = Inr (a', None) \<and>
      Config a' = Some d \<and> APIVIP (Spec d) \<noteq> [] \<and> IngressVIP (Spec d) \<noteq> [] \<and>
      controlPlaneReplicas (scenarioInstallConfig 3) = Inr 3 \<and> 1 <s (3 :: int64) \<and>
      fst (getVIPs testCollaborators (Platform (scenarioInstallConfig 3))) \<noteq> [] \<and>
      snd (getVIPs testCollaborators (Platform (scenarioInstallConfig 3))) \<noteq> []"
    using Generate_VIPs [OF Generate_three] r3 Generate_three by auto
  have one: "\<exists>a' d. Generate testCollaborators emptyAsset (Some (scenarioInstallConfig 1)) = Inr (a', None) \<and>
      Config a' = Some d \<and> controlPlaneReplicas (scenarioInstallConfig 1) = Inr 1 \<and>
      APIVIP (Spec d) = [] \<and> IngressVIP (Spec d) = []"
    using Generate_VIPs [OF Generate_one] r1 Generate_one by auto
  from three one show ?thesis by blast
qed

text \<open>
  \<^bold>\<open>C6.\<close> The scenario with one control-plane replica, two compute pools of three replicas,
  cluster network 10.128.0.0/14 with host prefix 23, service network 172.30.0.0/16, no
  network type and the platform addresses 192.168.1.10 and 192.168.1.11: where the
  serialiser does not fail, \<^verbatim>\<open>Generate\<close> succeeds, and the descriptor has six worker agents,
  one control-plane agent, the default network type and empty virtual addresses.
\<close>

theorem Generate_single_node_scenario:
  assumes cp: "ControlPlane ic = Some pool" "Replicas pool = Some 1"
    and compute: "Compute ic = [w1, w2]" "Replicas w1 = Some 3" "Replicas w2 = Some 3"
    and net: "types_Networking ic = Some nw" "types_NetworkType nw = []"
    and cluster: "types_ClusterNetwork nw = [cn]" "ipnet_String (types_CIDR cn) = ''10.128.0.0/14''"
      "types_HostPrefix cn = 23"
    and service: "types_ServiceNetwork nw = [sn]" "ipnet_String sn = ''172.30.0.0/16''"
    and vips: "getVIPs env (Platform ic) = (''192.168.1.10'', ''192.168.1.11'')"
    and yaml: "\<And>x. \<exists>data. yaml_Marshal env x = Inr data"
  shows "\<exists>a' d. Generate env a (Some ic) = Inr (a', None) \<and> Config a' = Some d \<and>
           WorkerAgents (ProvisionRequirements (Spec d)) = 6 \<and>
           ControlPlaneAgents (ProvisionRequirements (Spec d)) = 1 \<and>
           NetworkType (Networking (Spec d)) = defaultNetworkType \<and>
           APIVIP (Spec d) = [] \<and> IngressVIP (Spec d) = [] \<and>
           ClusterNetwork (Networking (Spec d)) = [\<lparr>CIDR = ''10.128.0.0/14'', HostPrefix = 23\<rparr>] \<and>
           ServiceNetwork (Networking (Spec d)) = [''172.30.0.0/16'']"
proof -
  let ?cn = "[\<lparr>CIDR = ''10.128.0.0/14'', HostPrefix = 23\<rparr>]"
  let ?sn = "[''172.30.0.0/16'']"
  let ?aci = "newAgentClusterInstall env ic ?cn ?sn 1 6"
  let ?d = "withNetworkType ?aci defaultNetworkType"
  have workers: "sumReplicas (Compute ic) 0 = Inr 6"
    using compute by simp
  have bc: "buildClusterNetwork (types_ClusterNetwork nw) [] = Inr ?cn"
    using cluster by (simp add: parse_10_128 subnet_10_128 string_10_128)
  have bs: "buildServiceNetwork (types_ServiceNetwork nw) [] = Inr ?sn"
    using service by (simp add: parse_172_30 string_172_30)
  have r: "controlPlaneReplicas ic = Inr 1"
    using cp by (simp add: controlPlaneReplicas_def)
  let ?ic' = "ic\<lparr>types_Networking := Some (nw\<lparr>types_NetworkType := defaultNetworkType\<rparr>)\<rparr>"
  have unset: "NetworkType (Networking (Spec ?aci)) = []"
    by (simp add: newAgentClusterInstall_def)
  have s: "setNetworkType ?aci (Some ic) ''NetworkType is not specified in InstallConfig.'' =
      Inr (?d, Some ?ic',
           [''NetworkType is not specified in InstallConfig.'' @ '' Defaulting NetworkType to '' @
            defaultNetworkType @ ''.''])"
    using net unset by (simp add: setNetworkType_def SetInstallConfigDefaults_def Let_def)
  have r': "controlPlaneReplicas ?ic' = Inr 1"
    using cp by (simp add: controlPlaneReplicas_def)
  obtain data where data: "yaml_Marshal env ?d = Inr data"
    using yaml by blast
  let ?a2 = "a\<lparr>Config := Some ?d, File := Some \<lparr>Filename = agentClusterInstallFilename env, Data = data\<rparr>\<rparr>"
  have other: "NetworkType (Networking (Spec ?d)) \<noteq> NetworkTypeOpenShiftSDN"
    by (simp add: withNetworkType_def defaultNetworkType_def NetworkTypeOpenShiftSDN_def)
  have "validateIPAddressAndNetworkType ?a2 = Inr []"
    using other by (simp add: validateIPAddressAndNetworkType_def)
  then have fin: "finish ?a2 = Inr None"
    by (simp add: finish_def ToAggregate_def)
  have c: "completeGenerate env a ic ?aci = Inr (?a2, None)"
    using s r' vips data fin by (simp add: completeGenerate_def)
  have g: "Generate env a (Some ic) = Inr (?a2, None)"
    using workers net bc bs r c by (simp add: Generate_def)
  have "Config ?a2 = Some ?d" by simp
  moreover have "WorkerAgents (ProvisionRequirements (Spec ?d)) = 6"
    and "ControlPlaneAgents (ProvisionRequirements (Spec ?d)) = 1"
    and "NetworkType (Networking (Spec ?d)) = defaultNetworkType"
    and "APIVIP (Spec ?d) = []" and "IngressVIP (Spec ?d) = []"
    and "ClusterNetwork (Networking (Spec ?d)) = ?cn"
    and "ServiceNetwork (Networking (Spec ?d)) = ?sn"
    by (simp_all add: withNetworkType_def newAgentClusterInstall_def)
  ultimately show ?thesis using g by blast
qed

theorem Generate_single_node_scenario_witness:
  "\<exists>a' d. Generate testCollaborators emptyAsset (Some (scenarioInstallConfig 1)) = Inr (a', None) \<and>
     Config a' = Some d \<and>
     WorkerAgents (ProvisionRequirements (Spec d)) = 6 \<and>
     ControlPlaneAgents (ProvisionRequirements (Spec d)) = 1 \<and>
     NetworkType (Networking (Spec d)) = defaultNetworkType \<and>
     APIVIP (Spec d) = [] \<and> IngressVIP (Spec d) = [] \<and>
     ClusterNetwork (Networking (Spec d)) = [\<lparr>CIDR = ''10.128.0.0/14'', HostPrefix = 23\<rparr>] \<and>
     ServiceNetwork (Networking (Spec d)) = [''172.30.0.0/16'']"
proof -
  let ?ic = "scenarioInstallConfig 1"
  let ?cn = "\<lparr>types_CIDR = \<lparr>IP = IPv4 10 128 0 0, Mask = [0xff, 0xfc, 0, 0]\<rparr>, types_HostPrefix = 23\<rparr>"
  let ?sn = "\<lparr>IP = IPv4 172 30 0 0, Mask = [0xff, 0xff, 0, 0]\<rparr>"
  let ?nw = "\<lparr>types_NetworkType = [], types_ClusterNetwork = [?cn], types_ServiceNetwork = [?sn]\<rparr>"
  have c: "ipnet_String \<lparr>IP = IPv4 10 128 0 0, Mask = [0xff, 0xfc, 0, 0]\<rparr> = ''10.128.0.0/14''"
    by code_simp
  show ?thesis
    by (rule Generate_single_node_scenario
        [of ?ic "\<lparr>PoolName = ''master'', Replicas = Some 1\<rparr>"
          "\<lparr>PoolName = ''worker'', Replicas = Some 3\<rparr>" "\<lparr>PoolName = ''worker-b'', Replicas = Some 3\<rparr>"
          ?nw ?cn ?sn testCollaborators emptyAsset])
       (simp_all add: scenarioInstallConfig_def testCollaborators_def c string_172_30)
qed

text \<open>
  \<^bold>\<open>C7.\<close> \<^verbatim>\<open>setNetworkType\<close> is idempotent. Called with an install configuration it returns
  a descriptor on which any further call, with any configuration and message, changes
  nothing and logs nothing; and called on a descriptor whose network type is already set it
  returns the descriptor and the configuration as they were.
\<close>

theorem setNetworkType_idempotent:
  "(\<exists>aci1 ic1 logged.
      setNetworkType aci (Some ic) m = Inr (aci1, ic1, logged) \<and>
      (\<forall>ico m'. setNetworkType aci1 ico m' = Inr (aci1, ico, []))) \<and>
   (NetworkType (Networking (Spec aci)) \<noteq> [] \<longrightarrow>
      (\<forall>ico. setNetworkType aci ico m = Inr (aci, ico, [])))"
proof -
  obtain aci1 ic1 l where first: "setNetworkType aci (Some ic) m = Inr (aci1, Some ic1, l)"
    and populated: "NetworkType (Networking (Spec aci1)) \<noteq> []"
    using setNetworkType_Some [of aci ic m] by blast
  have "\<forall>ico m'. setNetworkType aci1 ico m' = Inr (aci1, ico, [])"
    using populated by (simp add: setNetworkType_populated)
  with first show ?thesis
    by (simp add: setNetworkType_populated)
qed

theorem setNetworkType_idempotent_witness:
  "NetworkType (Networking (Spec (descriptorWith ''OpenShiftSDN'' [] []))) \<noteq> [] \<and>
   (\<forall>ico. setNetworkType (descriptorWith ''OpenShiftSDN'' [] []) ico ''w'' =
      Inr (descriptorWith ''OpenShiftSDN'' [] [], (ico :: unit InstallConfig option), [])) \<and>
   (\<exists>aci1 ic1 logged.
      setNetworkType (descriptorWith [] [] []) (Some blankInstallConfig) ''w'' = Inr (aci1, ic1, logged) \<and>
      (\<forall>ico m'. setNetworkType aci1 (ico :: unit InstallConfig option) m' = Inr (aci1, ico, [])))"
proof -
  have populated: "NetworkType (Networking (Spec (descriptorWith ''OpenShiftSDN'' [] []))) \<noteq> []"
    by (simp add: descriptorWith_def)
  show ?thesis
    using populated
      setNetworkType_idempotent [of "descriptorWith ''OpenShiftSDN'' [] []" blankInstallConfig "''w''"]
      setNetworkType_idempotent [of "descriptorWith [] [] []" blankInstallConfig "''w''"]
    by blast
qed

text \<open>
  \<^bold>\<open>C8.\<close> When \<^verbatim>\<open>Generate\<close> accepts an install configuration, the SSH public key of the
  descriptor is the configured key without a prefix and a suffix made of the characters
  pipe, newline and tab only; what remains neither starts nor ends with one of the three,
  so nothing else was removed, and trimming it again leaves it as it is.
\<close>

theorem Generate_SSHPublicKey:
  assumes "Generate env a (Some ic) = Inr (a', None)"
  shows "\<exists>d pre post.
           Config a' = Some d \<and>
           SSHKey ic = pre @ SSHPublicKey (Spec d) @ post \<and>
           set pre \<subseteq> cutset \<and> set post \<subseteq> cutset \<and>
           (SSHPublicKey (Spec d) \<noteq> [] \<longrightarrow>
              hd (SSHPublicKey (Spec d)) \<notin> cutset \<and> last (SSHPublicKey (Spec d)) \<notin> cutset) \<and>
           strings_Trim (SSHPublicKey (Spec d)) [CHR ''|'', CHR 0x0A, CHR 0x09] =
             SSHPublicKey (Spec d)"
proof -
  let ?cs = "[CHR ''|'', CHR 0x0A, CHR 0x09]"
  let ?k = "strings_Trim (SSHKey ic) ?cs"
  have cs: "set ?cs = cutset"
    by (auto simp: cutset_def)
  obtain n nw cn sn r where
    c: "completeGenerate env a ic (newAgentClusterInstall env ic cn sn r n) = Inr (a', None)"
    using Generate_Some_success [OF assms] by blast
  obtain d where d: "Config a' = Some d" and k: "SSHPublicKey (Spec d) = ?k"
    using completeGenerate_Config [OF c]
    by (auto simp: withNetworkType_def newAgentClusterInstall_def split: if_splits)
  obtain pre post where dec: "SSHKey ic = pre @ ?k @ post" "set pre \<subseteq> set ?cs" "set post \<subseteq> set ?cs"
    using strings_Trim_decomp [of "SSHKey ic" ?cs] by blast
  have ends: "?k \<noteq> [] \<longrightarrow> hd ?k \<notin> set ?cs \<and> last ?k \<notin> set ?cs"
    using strings_Trim_ends [of "SSHKey ic" ?cs] by blast
  then have fixed: "strings_Trim ?k ?cs = ?k"
    using strings_Trim_fixed [of ?k ?cs] by blast
  show ?thesis
    using d k dec ends fixed unfolding cs by metis
qed

theorem Generate_SSHPublicKey_witness:
  "\<exists>a' d. Generate testCollaborators emptyAsset (Some (scenarioInstallConfig 3)) = Inr (a', None) \<and>
     Config a' = Some d \<and>
     SSHKey (scenarioInstallConfig 3) =
       [CHR ''|'', CHR 0x0A] @ ''ssh-rsa AAAA|B core@host'' @ [CHR 0x0A, CHR 0x09] \<and>
     SSHPublicKey (Spec d) = ''ssh-rsa AAAA|B core@host'' \<and>
     (\<exists>pre post. SSHKey (scenarioInstallConfig 3) = pre @ SSHPublicKey (Spec d) @ post \<and>
        set pre \<subseteq> cutset \<and> set post \<subseteq> cutset) \<and>
     hd (SSHPublicKey (Spec d)) \<notin> cutset \<and> last (SSHPublicKey (Spec d)) \<notin> cutset"
proof -
  have key: "SSHKey (scenarioInstallConfig 3) =
       [CHR ''|'', CHR 0x0A] @ ''ssh-rsa AAAA|B core@host'' @ [CHR 0x0A, CHR 0x09]"
    by (simp add: scenarioInstallConfig_def)
  show ?thesis
    using Generate_SSHPublicKey [OF Generate_three] Generate_three key
    by auto
qed

text \<open>
  \<^bold>\<open>C9.\<close> When fetching the manifest fails, \<^verbatim>\<open>Load\<close> returns \<open>found = False\<close> and leaves the
  asset as it was: without an error if the failure is of the "file does not exist" kind,
  and with the failure wrapped in a message otherwise.
\<close>

theorem Load_fetch_failure:
  assumes "FetchByName (agentClusterInstallFilename env) = Inl err"
  shows "(os_IsNotExist err \<longrightarrow> Load env a FetchByName = Inr (a, False, None)) \<and>
         (\<not> os_IsNotExist err \<longrightarrow>
            (\<exists>msg. Load env a FetchByName = Inr (a, False, Some (WithMessage err msg))))"
  using assms by (simp add: Load_def)

theorem Load_fetch_failure_witness:
  "os_IsNotExist (PathError ''open'' ''cluster-manifests/agent-cluster-install.yaml'' (Errno ENOENT)) \<and>
   Load testCollaborators emptyAsset
     (\<lambda>n. Inl (PathError ''open'' n (Errno ENOENT))) = Inr (emptyAsset, False, None) \<and>
   \<not> os_IsNotExist (ErrorString ''permission denied'') \<and>
   (\<exists>msg. Load testCollaborators emptyAsset (\<lambda>n. Inl (ErrorString ''permission denied'')) =
      Inr (emptyAsset, False, Some (WithMessage (ErrorString ''permission denied'') msg)))"
  using Load_fetch_failure [of "\<lambda>n. Inl (PathError ''open'' n (Errno ENOENT))" testCollaborators
      "PathError ''open'' ''cluster-manifests/agent-cluster-install.yaml'' (Errno ENOENT)" emptyAsset]
    Load_fetch_failure [of "\<lambda>n. Inl (ErrorString ''permission denied'')" testCollaborators
      "ErrorString ''permission denied''" emptyAsset]
  by (simp add: os_IsNotExist_def testCollaborators_def)

text \<open>
  \<^bold>\<open>C10.\<close> When the manifest is fetched and parses, but its descriptor does not pass the
  validator, \<^verbatim>\<open>Load\<close> returns \<open>found = False\<close> with an error. And \<^verbatim>\<open>Load\<close> returns
  \<open>found = True\<close> only with no error, after the fetch, the strict parse and the
  resolution of the network type have succeeded and the validator has found nothing.
\<close>

theorem Load_found_only_when_valid:
  "(FetchByName (agentClusterInstallFilename env) = Inr f \<and>
    yaml_UnmarshalStrict env (Data f) = Inr d \<and>
    validateIPAddressAndNetworkType (a\<lparr>Config := Some d\<rparr>) \<noteq> Inr [] \<longrightarrow>
      (\<exists>a' err. Load env a FetchByName = Inr (a', False, Some err))) \<and>
   (Load env a FetchByName = Inr (a'', True, e) \<longrightarrow>
      e = None \<and>
      (\<exists>f d d' ic logged.
         FetchByName (agentClusterInstallFilename env) = Inr f \<and>
         yaml_UnmarshalStrict env (Data f) = Inr d \<and>
         setNetworkType d (Some blankInstallConfig)
           ''NetworkType is not specified in AgentClusterInstall.'' = Inr (d', ic, logged) \<and>
         a'' = a\<lparr>File := Some f, Config := Some d'\<rparr> \<and>
         validateIPAddressAndNetworkType a'' = Inr []))"
proof (intro conjI impI)
  assume h: "FetchByName (agentClusterInstallFilename env) = Inr f \<and>
    yaml_UnmarshalStrict env (Data f) = Inr d \<and>
    validateIPAddressAndNetworkType (a\<lparr>Config := Some d\<rparr>) \<noteq> Inr []"
  obtain errs where errs: "validateIPAddressAndNetworkType (a\<lparr>Config := Some d\<rparr>) = Inr errs"
    and other: "NetworkType (Networking (Spec d)) \<noteq> NetworkTypeOpenShiftSDN \<longrightarrow> errs = []"
    using validate_Config [of "a\<lparr>Config := Some d\<rparr>" d] by auto
  from h errs other have sdn: "NetworkType (Networking (Spec d)) = NetworkTypeOpenShiftSDN"
    and ne: "errs \<noteq> []" by auto
  then have populated: "NetworkType (Networking (Spec d)) \<noteq> []"
    by (simp add: NetworkTypeOpenShiftSDN_def)
  let ?a2 = "a\<lparr>File := Some f, Config := Some d\<rparr>"
  have "validateIPAddressAndNetworkType ?a2 = Inr errs"
    using errs validate_only_Config [of ?a2 "a\<lparr>Config := Some d\<rparr>"] by simp
  then have "finish ?a2 = Inr (Some (WithMessage (Aggregate (distinctMessages errs []))
                                ''invalid NetworkType configured''))"
    using ne finish_Config [of ?a2 d errs] by simp
  with h populated show "\<exists>a' err. Load env a FetchByName = Inr (a', False, Some err)"
    by (simp add: Load_def setNetworkType_populated)
next
  assume h: "Load env a FetchByName = Inr (a'', True, e)"
  then show "e = None"
    by (auto simp: Load_def Let_def split: sum.splits if_splits prod.splits option.splits)
next
  assume h: "Load env a FetchByName = Inr (a'', True, e)"
  then obtain f where f: "FetchByName (agentClusterInstallFilename env) = Inr f"
    by (cases "FetchByName (agentClusterInstallFilename env)") (auto simp: Load_def split: if_splits)
  from h f obtain d where d: "yaml_UnmarshalStrict env (Data f) = Inr d"
    by (cases "yaml_UnmarshalStrict env (Data f)") (auto simp: Load_def Let_def)
  obtain d' ic' l where s: "setNetworkType d (Some blankInstallConfig)
           ''NetworkType is not specified in AgentClusterInstall.'' = Inr (d', Some ic', l)"
    using setNetworkType_Some [of d blankInstallConfig] by blast
  let ?a2 = "a\<lparr>File := Some f, Config := Some d'\<rparr>"
  obtain errs where errs: "validateIPAddressAndNetworkType ?a2 = Inr errs"
    using validate_Config [of ?a2 d'] by auto
  have fin: "finish ?a2 = Inr (if errs = [] then None
                   else Some (WithMessage (Aggregate (distinctMessages errs []))
                                ''invalid NetworkType configured''))"
    using errs finish_Config [of ?a2 d' errs] by simp
  from h f d s fin have "a'' = ?a2 \<and> errs = []"
    by (auto simp: Load_def Let_def split: if_splits)
  with f d s errs show "\<exists>f d d' ic logged.
         FetchByName (agentClusterInstallFilename env) = Inr f \<and>
         yaml_UnmarshalStrict env (Data f) = Inr d \<and>
         setNetworkType d (Some blankInstallConfig)
           ''NetworkType is not specified in AgentClusterInstall.'' = Inr (d', ic, logged) \<and>
         a'' = a\<lparr>File := Some f, Config := Some d'\<rparr> \<and>
         validateIPAddressAndNetworkType a'' = Inr []"
    by auto
qed

theorem Load_found_only_when_valid_witness:
  "(\<exists>a' err. Load testCollaborators emptyAsset (\<lambda>n. Inr \<lparr>Filename = n, Data = ''sdn''\<rparr>) =
      Inr (a', False, Some err)) \<and>
   (\<exists>a''. Load testCollaborators emptyAsset (\<lambda>n. Inr \<lparr>Filename = n, Data = ''unset''\<rparr>) =
      Inr (a'', True, None) \<and>
      validateIPAddressAndNetworkType a'' = Inr [])"
proof -
  let ?sdn = "descriptorWith NetworkTypeOpenShiftSDN [\<lparr>CIDR = ''fd01::/48'', HostPrefix = 64\<rparr>] []"
  let ?f = "\<lparr>Filename = agentClusterInstallFilename testCollaborators, Data = ''sdn''\<rparr>"
  have parse: "yaml_UnmarshalStrict testCollaborators (Data ?f) = Inr ?sdn"
    by (simp add: testCollaborators_def)
  have first: "\<exists>a' err. Load testCollaborators emptyAsset (\<lambda>n. Inr \<lparr>Filename = n, Data = ''sdn''\<rparr>) =
      Inr (a', False, Some err)"
    using parse Load_sdn
      conjunct1 [OF Load_found_only_when_valid
        [of "\<lambda>n. Inr \<lparr>Filename = n, Data = ''sdn''\<rparr>" testCollaborators ?f ?sdn emptyAsset]]
    by simp
  have second: "\<exists>a''. Load testCollaborators emptyAsset (\<lambda>n. Inr \<lparr>Filename = n, Data = ''unset''\<rparr>) =
      Inr (a'', True, None) \<and> validateIPAddressAndNetworkType a'' = Inr []"
    using Load_unset
      Load_found_only_when_valid [of "\<lambda>n. Inr \<lparr>Filename = n, Data = ''unset''\<rparr>" testCollaborators
        _ _ emptyAsset
        "\<lparr>File = Some \<lparr>Filename = ''cluster-manifests/agent-cluster-install.yaml'', Data = ''unset''\<rparr>,
           Config = Some (descriptorWith ''OVNKubernetes''
                     [\<lparr>CIDR = ''10.128.0.0/14'', HostPrefix = 23\<rparr>] [''172.30.0.0/16''])\<rparr>" None]
    by auto
  from first second show ?thesis by blast
qed

end
